theory Spec2Isabelle
  imports Main "HOL-Library.Multiset"
begin

section \<open>Old World ambition parser: a shallow embedding of parser/parse.py\<close>

text \<open>
  The parser reads XML files with ElementTree, builds a text catalog and one type
  catalog per category, and turns every Entry of goal.xml into a normalized ambition.
  The viewer script embedded in the same file filters and ranks the ambitions.
  Strings are byte strings here, and the model is that of ASCII text, which is what the
  ids, field names and numbers of the game files are: the case conversions and the white
  space below are the ASCII ones and leave every other byte alone, where Python and
  JavaScript also case and strip characters beyond ASCII.
\<close>

subsection \<open>Strings\<close>

definition is_upper :: "char \<Rightarrow> bool" where
  "is_upper c = (let n = (of_char c :: nat) in 65 \<le> n \<and> n \<le> 90)"

definition is_lower :: "char \<Rightarrow> bool" where
  "is_lower c = (let n = (of_char c :: nat) in 97 \<le> n \<and> n \<le> 122)"

definition is_digit :: "char \<Rightarrow> bool" where
  "is_digit c = (let n = (of_char c :: nat) in 48 \<le> n \<and> n \<le> 57)"

text \<open>
  The characters \<open>int\<close> skips around the digits of an ASCII string: tab, line feed,
  vertical tab, form feed, carriage return and space.
\<close>

definition is_space :: "char \<Rightarrow> bool" where
  "is_space c = (let n = (of_char c :: nat) in (9 \<le> n \<and> n \<le> 13) \<or> n = 32)"

definition to_upper :: "char \<Rightarrow> char" where
  "to_upper c = (if is_lower c then char_of (of_char c - (32::nat)) else c)"

definition to_lower :: "char \<Rightarrow> char" where
  "to_lower c = (if is_upper c then char_of (of_char c + (32::nat)) else c)"

text \<open>\<open>s.startswith(p)\<close>.\<close>

definition startswith :: "string \<Rightarrow> string \<Rightarrow> bool" where
  "startswith s p = (take (length p) s = p)"

text \<open>\<open>s.split(sep)[0]\<close> for a one-character separator: the part before its first occurrence.\<close>

definition split0 :: "char \<Rightarrow> string \<Rightarrow> string" where
  "split0 sep s = takeWhile (\<lambda>c. c \<noteq> sep) s"

text \<open>\<open>s.replace("_", " ")\<close>.\<close>

definition replace_underscores :: "string \<Rightarrow> string" where
  "replace_underscores s = map (\<lambda>c. if c = CHR ''_'' then CHR '' '' else c) s"

text \<open>
  \<open>s.title()\<close>: a cased character that follows an uncased one is upper-cased, a cased
  character that follows a cased one is lower-cased, everything else is kept. The flag is
  "the previous character was cased". The cased characters here are the ASCII letters.
\<close>

fun title_from :: "bool \<Rightarrow> string \<Rightarrow> string" where
  "title_from prev [] = []"
| "title_from prev (c # cs) =
     (if is_upper c \<or> is_lower c
      then (if prev then to_lower c else to_upper c) # title_from True cs
      else c # title_from False cs)"

definition title :: "string \<Rightarrow> string" where
  "title s = title_from False s"

text \<open>The string without the white space at its two ends, as \<open>int\<close> reads it.\<close>

definition strip :: "string \<Rightarrow> string" where
  "strip s = rev (dropWhile is_space (rev (dropWhile is_space s)))"

subsection \<open>\<open>int(s)\<close>\<close>

text \<open>
  Python's \<open>int\<close> on an ASCII string: white space around, an optional sign, then
  decimal digits in which single underscores may stand between two digits. Anything else
  is a ValueError, which is \<open>None\<close> here. Outside this model: digits and white space
  beyond ASCII, which \<open>int\<close> also reads, and the interpreter's limit on the number of
  digits (4300 by default from Python 3.11 on), beyond which it raises ValueError.
\<close>

definition digit_val :: "char \<Rightarrow> nat" where
  "digit_val c = of_char c - 48"

fun parse_digits :: "nat \<Rightarrow> string \<Rightarrow> nat option" where
  "parse_digits acc [] = Some acc"
| "parse_digits acc (c # cs) =
     (if is_digit c then parse_digits (10 * acc + digit_val c) cs
      else if c = CHR ''_'' \<and> (case cs of [] \<Rightarrow> False | d # _ \<Rightarrow> is_digit d)
      then parse_digits acc cs
      else None)"

definition parse_unsigned :: "string \<Rightarrow> nat option" where
  "parse_unsigned r =
     (case r of [] \<Rightarrow> None
      | d # _ \<Rightarrow> if is_digit d then parse_digits 0 r else None)"

definition py_int :: "string \<Rightarrow> int option" where
  "py_int s =
     (case strip s of
        [] \<Rightarrow> None
      | c # r \<Rightarrow>
          if c = CHR ''-'' then map_option (\<lambda>n. - int n) (parse_unsigned r)
          else if c = CHR ''+'' then map_option int (parse_unsigned r)
          else map_option int (parse_unsigned (c # r)))"

subsection \<open>XML elements as ElementTree shows them\<close>

text \<open>
  An element has a tag, a text (\<open>None\<close> when there is none) and its child elements in
  document order. \<open>find\<close> is the first child with a tag, \<open>findall\<close> all of them.
\<close>

datatype xml = Element (etag: string) (etext: "string option") (kids: "xml list")

definition findall :: "xml \<Rightarrow> string \<Rightarrow> xml list" where
  "findall e t = filter (\<lambda>c. etag c = t) (kids e)"

definition find_child :: "xml \<Rightarrow> string \<Rightarrow> xml option" where
  "find_child e t = List.find (\<lambda>c. etag c = t) (kids e)"

text \<open>\<open>child is not None and child.text\<close>: the text of a child when it is there and not empty.\<close>

definition truthy_text :: "xml option \<Rightarrow> string option" where
  "truthy_text child =
     (case child of None \<Rightarrow> None
      | Some c \<Rightarrow> (case etext c of None \<Rightarrow> None
                  | Some t \<Rightarrow> if t = [] then None else Some t))"

definition get_text :: "xml \<Rightarrow> string \<Rightarrow> string option \<Rightarrow> string option" where
  "get_text element t dflt =
     (case truthy_text (find_child element t) of Some s \<Rightarrow> Some s | None \<Rightarrow> dflt)"

definition get_int :: "xml \<Rightarrow> string \<Rightarrow> int \<Rightarrow> int" where
  "get_int element t dflt =
     (case truthy_text (find_child element t) of
        Some s \<Rightarrow> (case py_int s of Some n \<Rightarrow> n | None \<Rightarrow> dflt)
      | None \<Rightarrow> dflt)"

definition get_bool :: "xml \<Rightarrow> string \<Rightarrow> bool \<Rightarrow> bool" where
  "get_bool element t dflt =
     (case truthy_text (find_child element t) of
        Some s \<Rightarrow> (s = ''1'')
      | None \<Rightarrow> dflt)"

subsection \<open>The text catalog\<close>

text \<open>
  \<open>build_text_lookup\<close> goes through the text files in the order the directory scan gives
  them; a file that does not parse is \<open>None\<close> and is skipped. Every Entry with a non-empty
  zType and a non-empty en-US text stores the part of the text before the first tilde
  under the zType, overwriting what was there.
\<close>

type_synonym texts = "string \<rightharpoonup> string"

definition store_text_entry :: "xml \<Rightarrow> texts \<Rightarrow> texts" where
  "store_text_entry entry texts =
     (case truthy_text (find_child entry ''zType'') of
        None \<Rightarrow> texts
      | Some ztype \<Rightarrow>
          (case truthy_text (find_child entry ''en-US'') of
             None \<Rightarrow> texts
           | Some en_us \<Rightarrow>
               texts(ztype \<mapsto> (if CHR ''~'' \<in> set en_us then split0 CHR ''~'' en_us else en_us))))"

definition load_text_file :: "xml option \<Rightarrow> texts \<Rightarrow> texts" where
  "load_text_file file texts =
     (case file of None \<Rightarrow> texts
      | Some root \<Rightarrow> fold store_text_entry (findall root ''Entry'') texts)"

definition build_text_lookup :: "xml option list \<Rightarrow> texts" where
  "build_text_lookup text_files = fold load_text_file text_files Map.empty"

subsection \<open>The type catalogs\<close>

text \<open>
  \<open>build_type_lookup\<close> reads one category file; a file that is missing or does not parse
  (\<open>None\<close>) gives the empty table. The ten tables are kept under their category names, in
  the order the dictionary literal lists them, which is the order \<open>values()\<close> iterates.
\<close>

type_synonym lookup = "string \<rightharpoonup> string"

definition store_type_entry :: "string \<Rightarrow> xml \<Rightarrow> lookup \<Rightarrow> lookup" where
  "store_type_entry name_field entry lookup =
     (case truthy_text (find_child entry ''zType'') of
        None \<Rightarrow> lookup
      | Some ztype \<Rightarrow>
          (case truthy_text (find_child entry name_field) of
             None \<Rightarrow> lookup
           | Some name \<Rightarrow> lookup(ztype \<mapsto> name)))"

definition build_type_lookup :: "xml option \<Rightarrow> string \<Rightarrow> lookup" where
  "build_type_lookup file name_field =
     (case file of None \<Rightarrow> Map.empty
      | Some root \<Rightarrow> fold (store_type_entry name_field) (findall root ''Entry'') Map.empty)"

definition type_lookup_files :: "(string \<times> string) list" where
  "type_lookup_files =
     [(''law'', ''law.xml''), (''tech'', ''tech.xml''), (''improvement'', ''improvement.xml''),
      (''specialist'', ''specialist.xml''), (''familyClass'', ''familyClass.xml''),
      (''religion'', ''religion.xml''), (''yield'', ''yield.xml''), (''unit'', ''unit.xml''),
      (''project'', ''project.xml''), (''nation'', ''nation.xml'')]"

definition build_type_lookups :: "(string \<Rightarrow> xml option) \<Rightarrow> (string \<times> lookup) list" where
  "build_type_lookups files =
     map (\<lambda>(name, filename). (name, build_type_lookup (files filename) ''Name'')) type_lookup_files"

subsection \<open>The link resolver\<close>

definition link_prefixes :: "string list" where
  "link_prefixes =
     [''LAW_'', ''TECH_'', ''IMPROVEMENT_'', ''YIELD_'', ''SPECIALIST_'',
      ''FAMILYCLASS_'', ''THEOLOGY_'', ''RELIGION_'', ''UNIT_'',
      ''PROJECT_'', ''DIPLOMACY_'', ''STAT_'']"

text \<open>
  The first loop of \<open>replace_link\<close>: the tables in order; a table that has the reference
  and whose text key is in the text catalog ends the search, any other table is passed.
\<close>

fun probe :: "texts \<Rightarrow> lookup list \<Rightarrow> string \<Rightarrow> string option" where
  "probe texts [] ref = None"
| "probe texts (lookup # rest) ref =
     (case lookup ref of
        None \<Rightarrow> probe texts rest ref
      | Some text_key \<Rightarrow>
          (case texts text_key of
             None \<Rightarrow> probe texts rest ref
           | Some resolved \<Rightarrow>
               Some (if CHR ''~'' \<in> set resolved then split0 CHR ''~'' resolved else resolved)))"

text \<open>The second loop: the first prefix the reference starts with is cut off.\<close>

fun format_stripped :: "string list \<Rightarrow> string \<Rightarrow> string" where
  "format_stripped [] ref = ref"
| "format_stripped (prefix # rest) ref =
     (if startswith ref prefix
      then title (replace_underscores (drop (length prefix) ref))
      else format_stripped rest ref)"

text \<open>\<open>replace_link\<close> on the text of group 1 of a match.\<close>

definition replace_link :: "texts \<Rightarrow> (string \<times> lookup) list \<Rightarrow> string \<Rightarrow> string" where
  "replace_link texts type_lookups group1 =
     (let ref = split0 CHR '','' group1 in
      case probe texts (map snd type_lookups) ref of
        Some resolved \<Rightarrow> resolved
      | None \<Rightarrow> format_stripped link_prefixes ref)"

text \<open>
  \<open>re.sub(r"link\(([^)]+)\)", replace_link, text)\<close>: from left to right, a match starts
  where the text reads \<open>link(\<close>, followed by at least one character other than a closing
  parenthesis, followed by a closing parenthesis; the scan goes on behind the match.
  Where there is no match the character is copied.
\<close>

function sub_links :: "texts \<Rightarrow> (string \<times> lookup) list \<Rightarrow> string \<Rightarrow> string" where
  "sub_links texts type_lookups [] = []"
| "sub_links texts type_lookups (c # cs) =
     (if startswith (c # cs) ''link(''
         \<and> takeWhile (\<lambda>x. x \<noteq> CHR '')'') (drop 5 (c # cs)) \<noteq> []
         \<and> dropWhile (\<lambda>x. x \<noteq> CHR '')'') (drop 5 (c # cs)) \<noteq> []
      then replace_link texts type_lookups (takeWhile (\<lambda>x. x \<noteq> CHR '')'') (drop 5 (c # cs)))
           @ sub_links texts type_lookups (tl (dropWhile (\<lambda>x. x \<noteq> CHR '')'') (drop 5 (c # cs))))
      else c # sub_links texts type_lookups cs)"
  by pat_completeness auto
termination
proof (relation "measure (\<lambda>(texts, type_lookups, s). length s)")
  show "wf (measure (\<lambda>(texts, type_lookups, s). length s))"
    by simp
next
  fix texts :: texts and type_lookups :: "(string \<times> lookup) list" and c :: char and cs :: string
  have "length (dropWhile (\<lambda>x. x \<noteq> CHR '')'') (drop 5 (c # cs))) \<le> length (drop 5 (c # cs))"
    by (rule length_dropWhile_le)
  then have "length (tl (dropWhile (\<lambda>x. x \<noteq> CHR '')'') (drop 5 (c # cs)))) < length (c # cs)"
    by simp
  then show "((texts, type_lookups, tl (dropWhile (\<lambda>x. x \<noteq> CHR '')'') (drop 5 (c # cs)))),
              (texts, type_lookups, c # cs))
             \<in> measure (\<lambda>(texts, type_lookups, s). length s)"
    by simp
next
  fix texts :: texts and type_lookups :: "(string \<times> lookup) list" and c :: char and cs :: string
  show "((texts, type_lookups, cs), (texts, type_lookups, c # cs))
        \<in> measure (\<lambda>(texts, type_lookups, s). length s)"
    by simp
qed

definition resolve_link :: "texts \<Rightarrow> (string \<times> lookup) list \<Rightarrow> string \<Rightarrow> string" where
  "resolve_link texts type_lookups text =
     (if text = [] then text else sub_links texts type_lookups text)"

text \<open>\<open>format_type_name\<close>: the readable label of an id.\<close>

definition type_prefixes :: "string list" where
  "type_prefixes =
     [''GOAL_'', ''LAW_'', ''TECH_'', ''IMPROVEMENT_'', ''YIELD_'', ''SPECIALIST_'',
      ''FAMILYCLASS_'', ''THEOLOGY_'', ''RELIGION_'', ''UNIT_'', ''PROJECT_'',
      ''DIPLOMACY_'', ''STAT_'', ''EFFECTCITY_'', ''CULTURE_'', ''SUBJECT_'',
      ''IMPROVEMENTCLASS_'', ''RESOURCE_'', ''OPINIONFAMILY_'', ''NATION_'']"

fun strip_first_prefix :: "string list \<Rightarrow> string \<Rightarrow> string" where
  "strip_first_prefix [] type_id = type_id"
| "strip_first_prefix (prefix # rest) type_id =
     (if startswith type_id prefix then drop (length prefix) type_id
      else strip_first_prefix rest type_id)"

definition format_type_name :: "string \<Rightarrow> string" where
  "format_type_name type_id =
     (if type_id = [] then []
      else title (replace_underscores (strip_first_prefix type_prefixes type_id)))"

subsection \<open>Lists inside an entry\<close>

datatype py_error = ValueError

text \<open>
  \<open>parse_pair_list\<close> converts the iValue of a pair with \<open>int\<close> and no handler: a text
  that is not an integer raises ValueError and ends the run.
\<close>

fun parse_pairs :: "(string \<times> int) list \<Rightarrow> xml list \<Rightarrow> py_error + (string \<times> int) list" where
  "parse_pairs pairs [] = Inr pairs"
| "parse_pairs pairs (pair # rest) =
     (case truthy_text (find_child pair ''zIndex'') of
        None \<Rightarrow> parse_pairs pairs rest
      | Some zindex \<Rightarrow>
          (case truthy_text (find_child pair ''iValue'') of
             None \<Rightarrow> parse_pairs (pairs @ [(zindex, 0)]) rest
           | Some ivalue \<Rightarrow>
               (case py_int ivalue of
                  None \<Rightarrow> Inl ValueError
                | Some v \<Rightarrow> parse_pairs (pairs @ [(zindex, v)]) rest)))"

definition parse_pair_list :: "xml option \<Rightarrow> py_error + (string \<times> int) list" where
  "parse_pair_list element =
     (case element of None \<Rightarrow> Inr [] | Some e \<Rightarrow> parse_pairs [] (findall e ''Pair''))"

definition parse_value_list :: "xml option \<Rightarrow> string list" where
  "parse_value_list element =
     (case element of None \<Rightarrow> []
      | Some e \<Rightarrow> List.map_filter (\<lambda>zvalue. truthy_text (Some zvalue)) (findall e ''zValue''))"

subsection \<open>The normalized ambition\<close>

record typed_count =
  tc_type :: string
  tc_typeName :: string
  tc_value :: int

datatype jvalue =
  JStr string | JInt int | JBool bool | JStrs "string list" | JTyped "typed_count list"

type_synonym requirements = "string \<rightharpoonup> jvalue"

record filters =
  techPrereq :: "string option"
  techPrereqName :: "string option"
  techObsolete :: "string option"
  techObsoleteName :: "string option"
  nationPrereq :: "string option"
  nationPrereqName :: "string option"
  familyClasses :: "string list option"
  familyClassNames :: "string list option"
  religions :: "string list option"
  religionNames :: "string list option"
  invalidGameOptions :: "string list option"

record flags =
  victoryEligible :: bool
  blockComplete :: bool
  isGlobal :: bool

record event_source =
  eventName :: "string option"
  eventDlc :: "string option"
  trigger :: string

record goal =
  goal_id :: string
  name :: string
  shortName :: string
  helpText :: string
  ambitionClass :: int
  ambitionClassName :: string
  minTier :: int
  maxTier :: int
  subjectWeight :: int
  dlc :: "string option"
  requirements :: requirements
  filters :: filters
  flags :: flags
  eventSource :: "event_source option"

definition AMBITION_CLASS_NAMES :: "(int \<times> string) list" where
  "AMBITION_CLASS_NAMES =
     [(1, ''Laws''), (2, ''Theologies''), (3, ''Cities''), (4, ''Tribes''), (5, ''Production''),
      (6, ''Stockpiles''), (7, ''Workers & Rural''), (8, ''Rural Improvements''),
      (9, ''Wonders''), (10, ''Culture''), (11, ''Rural Specialists''),
      (12, ''Urban Specialists''), (13, ''Projects''), (14, ''Diplomacy''), (15, ''Religion''),
      (16, ''Technology''), (17, ''Combat''), (18, ''Promotions''), (19, ''Units''),
      (20, ''Unique Units''), (21, ''Leaders''), (22, ''Exploration''), (23, ''Trade''),
      (24, ''Luxuries''), (25, ''Conquest''), (26, ''Population''), (27, ''Urban Buildings''),
      (28, ''Religious Buildings''), (29, ''Urban Development''), (30, ''Espionage''),
      (31, ''Defense''), (39, ''Repairs''), (40, ''Lifestyle'')]"

text \<open>The table of event-only ambitions: id, event name, content pack, trigger.\<close>

definition EVENT_ONLY_AMBITIONS :: "(string \<times> event_source) list" where
  "EVENT_ONLY_AMBITIONS =
     [(''GOAL_LOSE_A_CITY'',
         \<lparr>eventName = Some ''Strength and Weakness'', eventDlc = Some ''Behind the Throne'',
          trigger = ''Leader must be Insane, 3+ upset families''\<rparr>),
      (''GOAL_FURIOUS_FAMILY'',
         \<lparr>eventName = Some ''Strength and Weakness'', eventDlc = Some ''Behind the Throne'',
          trigger = ''Leader must be Insane, 3+ upset families''\<rparr>),
      (''GOAL_TO_BE_KING'',
         \<lparr>eventName = Some ''To Be A King/Queen'', eventDlc = None,
          trigger = ''Regent ruling with Rightful Heir alive''\<rparr>),
      (''GOAL_THE_GREAT'',
         \<lparr>eventName = Some ''The Road to Glory'', eventDlc = None,
          trigger = ''Young leader (under 30) with 2+ dead ancestors, on succession''\<rparr>),
      (''GOAL_DESTROY_RIVALS'',
         \<lparr>eventName = Some ''Rivals event chain (Let the Land Burn / No Surrender)'',
          eventDlc = None,
          trigger = ''At war, breach enemy city, part of Rivals chain''\<rparr>),
      (''GOAL_KILL_CHARACTER'',
         \<lparr>eventName = Some (''[Character'' @ [CHR 0x27] @ ''s] Mark''),
          eventDlc = Some ''Behind the Throne'',
          trigger = ''Child of leader (teen+), angry foreign leader nearby, have spymaster''\<rparr>),
      (''GOAL_HARVEST_WINE'',
         \<lparr>eventName = Some ''A Refined Palate'', eventDlc = Some ''Behind the Throne'',
          trigger = ''Leader has high Charisma, unclaimed wine within 5 tiles''\<rparr>),
      (''GOAL_TAKE_HANGING_GARDENS'',
         \<lparr>eventName = Some ''The Jewel of [Nation]'', eventDlc = Some ''Behind the Throne'',
          trigger = ''Another nation owns the Hanging Gardens''\<rparr>),
      (''GOAL_TAKE_CITY'',
         \<lparr>eventName = Some ''Various conquest/rivalry events'', eventDlc = None,
          trigger = ''Rivalry or conquest event chains''\<rparr>),
      (''GOAL_STATE_RELIGION_SPECIFIC'',
         \<lparr>eventName = Some ''The Tutor Kartir'', eventDlc = Some ''Sacred and Profane'',
          trigger = ''Character studying, Zoroastrian city, Kartir tutor''\<rparr>),
      (''GOAL_EIGHT_RELIGION_SPREAD_SPECIFIC'',
         \<lparr>eventName = Some ''In Heaven as on Earth'', eventDlc = Some ''Sacred and Profane'',
          trigger = ''Augustine character, Christianity, after High Synod mission''\<rparr>),
      (''GOAL_FOUR_RELIGION_SPREAD_SPECIFIC'',
         \<lparr>eventName = Some ''Religion events'', eventDlc = Some ''Sacred and Profane'',
          trigger = ''Religion-specific event chains''\<rparr>),
      (''GOAL_2000_EACH_YIELD'',
         \<lparr>eventName = None, eventDlc = None, trigger = ''Unused/placeholder goal''\<rparr>)]"

text \<open>\<open>str(n)\<close> for the name of an unknown class.\<close>

function show_nat :: "nat \<Rightarrow> string" where
  "show_nat n =
     (if n < 10 then [char_of (48 + n)]
      else show_nat (n div 10) @ [char_of (48 + n mod 10)])"
  by pat_completeness auto
termination
  by (relation "measure (\<lambda>n. n)") auto

declare show_nat.simps [simp del]

definition show_int :: "int \<Rightarrow> string" where
  "show_int i = (if i < 0 then CHR ''-'' # show_nat (nat (- i)) else show_nat (nat i))"

definition class_name :: "int \<Rightarrow> string" where
  "class_name ambition_class =
     (case map_of AMBITION_CLASS_NAMES ambition_class of
        Some n \<Rightarrow> n
      | None \<Rightarrow> ''Class '' @ show_int ambition_class)"

subsection \<open>Filters\<close>

definition parse_filters :: "xml \<Rightarrow> filters" where
  "parse_filters entry =
     (let tech_prereq = get_text entry ''TechPrereq'' None;
          tech_obsolete = get_text entry ''TechObsolete'' None;
          nation_prereq = get_text entry ''NationPrereq'' None;
          family_classes = parse_value_list (find_child entry ''aeFamilyClass'');
          religions = parse_value_list (find_child entry ''aeReligion'');
          invalid_options = parse_value_list (find_child entry ''aeInvalidGameOptions'')
      in \<lparr>techPrereq = tech_prereq,
          techPrereqName = map_option format_type_name tech_prereq,
          techObsolete = tech_obsolete,
          techObsoleteName = map_option format_type_name tech_obsolete,
          nationPrereq = nation_prereq,
          nationPrereqName = map_option format_type_name nation_prereq,
          familyClasses = (if family_classes = [] then None else Some family_classes),
          familyClassNames =
            (if family_classes = [] then None else Some (map format_type_name family_classes)),
          religions = (if religions = [] then None else Some religions),
          religionNames = (if religions = [] then None else Some (map format_type_name religions)),
          invalidGameOptions = (if invalid_options = [] then None else Some invalid_options)\<rparr>)"

subsection \<open>Requirements\<close>

text \<open>
  The requirements record is a dictionary filled by a sequence of passes over the entry;
  each pass is a function from the record so far to the record after it.
\<close>

definition law_pass :: "xml \<Rightarrow> requirements \<Rightarrow> requirements" where
  "law_pass entry req =
     (case get_text entry ''StartLaw'' None of
        None \<Rightarrow> req
      | Some start_law \<Rightarrow>
          req(''type'' \<mapsto> JStr ''law'', ''law'' \<mapsto> JStr start_law,
              ''lawName'' \<mapsto> JStr (format_type_name start_law)))"

definition theology_pass :: "xml \<Rightarrow> requirements \<Rightarrow> requirements" where
  "theology_pass entry req =
     (case get_text entry ''EstablishTheology'' None of
        None \<Rightarrow> req
      | Some theology \<Rightarrow>
          req(''type'' \<mapsto> JStr ''theology'', ''theology'' \<mapsto> JStr theology,
              ''theologyName'' \<mapsto> JStr (format_type_name theology)))"

definition simple_counts :: "(string \<times> string \<times> string) list" where
  "simple_counts =
     [(''iCities'', ''cities'', ''Cities''),
      (''iConnectedCities'', ''connectedCities'', ''Connected Cities''),
      (''iPopulation'', ''population'', ''Population''),
      (''iLegitimacy'', ''legitimacy'', ''Legitimacy''),
      (''iWonders'', ''wonders'', ''Wonders''),
      (''iLaws'', ''laws'', ''Laws''),
      (''iCitizens'', ''citizens'', ''Citizens''),
      (''iSpecialists'', ''specialists'', ''Specialists''),
      (''iLuxuries'', ''luxuries'', ''Luxuries''),
      (''iSentLuxuries'', ''sentLuxuries'', ''Luxuries Sent''),
      (''iMilitaryUnits'', ''militaryUnits'', ''Military Units''),
      (''iMaxLevelUnits'', ''maxLevelUnits'', ''Max Level Units''),
      (''iUrbanTiles'', ''urbanTiles'', ''Urban Tiles''),
      (''iUrbanImprovements'', ''urbanImprovements'', ''Urban Improvements''),
      (''iRevealLand'', ''revealLand'', ''Land Revealed''),
      (''iRevealWater'', ''revealWater'', ''Water Revealed''),
      (''iGeneralCount'', ''generals'', ''Generals''),
      (''iExplorerCount'', ''explorers'', ''Explorers''),
      (''iGovernorCount'', ''governors'', ''Governors''),
      (''iAgentCount'', ''agents'', ''Agents''),
      (''iAgentNetworks'', ''agentNetworks'', ''Agent Networks''),
      (''iWorldReligionHolyCities'', ''holyCities'', ''Holy Cities'')]"

text \<open>
  The simple-counts loop: a value above zero is stored under its output key; the record
  is tagged "count" first when it has no "type" key at that moment.
\<close>

fun simple_counts_pass ::
  "xml \<Rightarrow> (string \<times> string \<times> string) list \<Rightarrow> requirements \<Rightarrow> requirements" where
  "simple_counts_pass entry [] req = req"
| "simple_counts_pass entry ((xml_field, json_field, display_name) # rest) req =
     simple_counts_pass entry rest
       (if get_int entry xml_field 0 > 0
        then (if req ''type'' = None then req(''type'' \<mapsto> JStr ''count'') else req)
               (json_field \<mapsto> JInt (get_int entry xml_field 0))
        else req)"

definition typed_counts :: "(string \<times> string \<times> string) list" where
  "typed_counts =
     [(''aiYieldProducedData'', ''yieldProduced'', ''Yield Produced''),
      (''aiYieldSoldData'', ''yieldSold'', ''Yield Sold''),
      (''aiYieldRate'', ''yieldRate'', ''Yield/Turn''),
      (''aiYieldCount'', ''yieldStockpile'', ''Yield Stockpile''),
      (''aiImprovementCount'', ''improvements'', ''Improvements''),
      (''aiImprovementClassCount'', ''improvementClasses'', ''Improvement Classes''),
      (''aiSpecialistCount'', ''specialists'', ''Specialists''),
      (''aiUnitCount'', ''units'', ''Units''),
      (''aiUnitTraitCount'', ''unitTraits'', ''Unit Traits''),
      (''aiProjectCount'', ''projects'', ''Projects''),
      (''aiLuxuryCount'', ''luxuriesHooked'', ''Luxuries Hooked''),
      (''aiDiplomacyCount'', ''diplomacy'', ''Diplomacy''),
      (''aiStatCountData'', ''stats'', ''Statistics''),
      (''aiCultureCount'', ''culture'', ''Culture''),
      (''aiCultureWonders'', ''cultureWonders'', ''Culture Wonders''),
      (''aiTribesKilledData'', ''tribesKilled'', ''Tribes Killed''),
      (''aiMissionsCompletedData'', ''missionsCompleted'', ''Missions'')]"

definition format_pair :: "string \<times> int \<Rightarrow> typed_count" where
  "format_pair p = \<lparr>tc_type = fst p, tc_typeName = format_type_name (fst p), tc_value = snd p\<rparr>"

fun typed_counts_pass ::
  "xml \<Rightarrow> (string \<times> string \<times> string) list \<Rightarrow> requirements \<Rightarrow> py_error + requirements" where
  "typed_counts_pass entry [] req = Inr req"
| "typed_counts_pass entry ((xml_field, json_field, display_name) # rest) req =
     (case parse_pair_list (find_child entry xml_field) of
        Inl err \<Rightarrow> Inl err
      | Inr pairs \<Rightarrow>
          typed_counts_pass entry rest
            (if pairs \<noteq> []
             then (if req ''type'' = None then req(''type'' \<mapsto> JStr ''typed_count'') else req)
                    (json_field \<mapsto> JTyped (map format_pair pairs))
             else req))"

definition techs_pass :: "xml \<Rightarrow> requirements \<Rightarrow> requirements" where
  "techs_pass entry req =
     (let techs_acquired = parse_value_list (find_child entry ''aeTechsAcquired'') in
      if techs_acquired \<noteq> []
      then req(''type'' \<mapsto> JStr ''techs'', ''techs'' \<mapsto> JStrs techs_acquired,
               ''techNames'' \<mapsto> JStrs (map format_type_name techs_acquired))
      else req)"

definition sub_goals_pass :: "xml \<Rightarrow> requirements \<Rightarrow> requirements" where
  "sub_goals_pass entry req =
     (let sub_goals = parse_value_list (find_child entry ''aeSubGoals'') in
      if sub_goals \<noteq> [] then req(''subGoals'' \<mapsto> JStrs sub_goals) else req)"

definition boolean_pass :: "xml \<Rightarrow> requirements \<Rightarrow> requirements" where
  "boolean_pass entry req =
     (let req1 = (if get_bool entry ''bStateReligion'' False
                  then req(''stateReligion'' \<mapsto> JBool True) else req)
      in if get_bool entry ''bAllHolyCities'' False
         then req1(''allHolyCities'' \<mapsto> JBool True) else req1)"

definition diplomacy_pass :: "xml \<Rightarrow> requirements \<Rightarrow> requirements" where
  "diplomacy_pass entry req =
     (case get_text entry ''DiplomacyAll'' None of
        None \<Rightarrow> req
      | Some diplomacy_all \<Rightarrow>
          req(''diplomacyAll'' \<mapsto> JStr diplomacy_all,
              ''diplomacyAllName'' \<mapsto> JStr (format_type_name diplomacy_all)))"

definition opinion_pass :: "xml \<Rightarrow> requirements \<Rightarrow> requirements" where
  "opinion_pass entry req =
     (case get_text entry ''MinOpinionFamily'' None of
        None \<Rightarrow> req
      | Some min_opinion \<Rightarrow>
          req(''minOpinionFamily'' \<mapsto> JStr min_opinion,
              ''minOpinionFamilyName'' \<mapsto> JStr (format_type_name min_opinion)))"

text \<open>The requirements of an entry: the passes in the order of the source.\<close>

definition parse_requirements :: "xml \<Rightarrow> py_error + requirements" where
  "parse_requirements entry =
     (case typed_counts_pass entry typed_counts
             (simple_counts_pass entry simple_counts
                (theology_pass entry (law_pass entry Map.empty))) of
        Inl err \<Rightarrow> Inl err
      | Inr req \<Rightarrow>
          Inr (opinion_pass entry (diplomacy_pass entry
                 (boolean_pass entry (sub_goals_pass entry (techs_pass entry req))))))"

subsection \<open>\<open>parse_goals\<close>\<close>

definition lookup_text :: "texts \<Rightarrow> string \<Rightarrow> string" where
  "lookup_text texts k = (case texts k of Some v \<Rightarrow> v | None \<Rightarrow> [])"

definition text_of_key :: "texts \<Rightarrow> (string \<times> lookup) list \<Rightarrow> xml \<Rightarrow> string \<Rightarrow> string" where
  "text_of_key texts type_lookups entry field =
     (case get_text entry field (Some []) of
        None \<Rightarrow> []
      | Some k \<Rightarrow> if k = [] then [] else resolve_link texts type_lookups (lookup_text texts k))"

text \<open>
  The body of the loop over the entries of goal.xml: \<open>None\<close> is an entry that is skipped
  (no zType, scenario-only, disabled), an error is the ValueError of a pair list.
\<close>

definition parse_goal :: "texts \<Rightarrow> (string \<times> lookup) list \<Rightarrow> xml \<Rightarrow> py_error + goal option" where
  "parse_goal texts type_lookups entry =
     (case get_text entry ''zType'' None of
        None \<Rightarrow> Inr None
      | Some ztype \<Rightarrow>
          if get_bool entry ''bScenario'' False then Inr None
          else if get_bool entry ''bDisabled'' False then Inr None
          else
            (case parse_requirements entry of
               Inl err \<Rightarrow> Inl err
             | Inr req \<Rightarrow>
                 Inr (Some
                   \<lparr>goal_id = ztype,
                    name =
                      (let raw_name =
                         lookup_text texts (case get_text entry ''Name'' (Some []) of
                                              Some k \<Rightarrow> k | None \<Rightarrow> [])
                       in if raw_name \<noteq> [] then resolve_link texts type_lookups raw_name
                          else format_type_name ztype),
                    shortName = text_of_key texts type_lookups entry ''ShortName'',
                    helpText = text_of_key texts type_lookups entry ''HelpText'',
                    ambitionClass = get_int entry ''iAmbitionClass'' 0,
                    ambitionClassName = class_name (get_int entry ''iAmbitionClass'' 0),
                    minTier = get_int entry ''iMinTier'' 1,
                    maxTier = get_int entry ''iMaxTier'' 10,
                    subjectWeight = get_int entry ''iSubjectWeight'' 0,
                    dlc = get_text entry ''GameContentRequired'' None,
                    requirements = req,
                    filters = parse_filters entry,
                    flags = \<lparr>victoryEligible = get_bool entry ''bVictoryEligible'' False,
                             blockComplete = get_bool entry ''bBlockComplete'' False,
                             isGlobal = get_bool entry ''bGlobal'' False\<rparr>,
                    eventSource = map_of EVENT_ONLY_AMBITIONS ztype\<rparr>)))"

fun parse_entries ::
  "texts \<Rightarrow> (string \<times> lookup) list \<Rightarrow> goal list \<Rightarrow> xml list \<Rightarrow> py_error + goal list" where
  "parse_entries texts type_lookups goals [] = Inr goals"
| "parse_entries texts type_lookups goals (entry # rest) =
     (case parse_goal texts type_lookups entry of
        Inl err \<Rightarrow> Inl err
      | Inr None \<Rightarrow> parse_entries texts type_lookups goals rest
      | Inr (Some g) \<Rightarrow> parse_entries texts type_lookups (goals @ [g]) rest)"

text \<open>
  The reference directory: the text files in the order of the directory scan, and the
  other files by name. A file that is missing or does not parse is \<open>None\<close>.
\<close>

record reference_dir =
  text_files :: "xml option list"
  files :: "string \<Rightarrow> xml option"

definition parse_goals :: "reference_dir \<Rightarrow> py_error + goal list" where
  "parse_goals dir =
     (case files dir ''goal.xml'' of
        None \<Rightarrow> Inr []
      | Some root \<Rightarrow>
          parse_entries (build_text_lookup (text_files dir)) (build_type_lookups (files dir)) []
            (findall root ''Entry''))"

text \<open>A goal.xml with one Entry made of scalar fields, for the examples below.\<close>

definition goal_entry :: "(string \<times> string) list \<Rightarrow> xml" where
  "goal_entry scalars = Element ''Entry'' None (map (\<lambda>(t, v). Element t (Some v) []) scalars)"

definition goal_dir :: "(string \<times> string) list \<Rightarrow> reference_dir" where
  "goal_dir scalars =
     \<lparr>text_files = [],
      files = (\<lambda>filename. if filename = ''goal.xml''
                          then Some (Element ''Root'' None [goal_entry scalars]) else None)\<rparr>"

section \<open>The viewer: filtering and ranking\<close>

text \<open>
  The script of the generated page works on the published ambitions. Its module-level
  variables and the values of its form controls make up the filter context. The
  completed-count is "all" or the count of one of the buttons 0 to 9; the selected class
  is empty or the id of one of the classes offered. \<open>localeCompare\<close> is the host's
  collation, which the language leaves to the implementation; it is a parameter here.
\<close>

datatype completed_count = All_counts | Completed nat

record filter_context =
  selectedNation :: string
  selectedFamilies :: "string set"
  completedCount :: completed_count
  selectedClass :: "int option"
  searchInput :: string
  showUnavailable :: bool

record availability =
  available :: bool
  reasons :: "string list"

datatype js_error = TypeError

text \<open>\<open>xs.join(sep)\<close> on strings, and the text of a string that may be undefined.\<close>

fun join :: "string \<Rightarrow> string list \<Rightarrow> string" where
  "join sep [] = []"
| "join sep [x] = x"
| "join sep (x # y # ys) = x @ sep @ join sep (y # ys)"

definition js_text :: "string option \<Rightarrow> string" where
  "js_text v = (case v of None \<Rightarrow> ''undefined'' | Some s \<Rightarrow> s)"

text \<open>
  \<open>checkAvailability\<close>. The second reason joins \<open>filters.familyClassNames\<close>, which
  raises a TypeError when the ambition has family classes and no names for them.
\<close>

definition checkAvailability :: "filter_context \<Rightarrow> goal \<Rightarrow> js_error + availability" where
  "checkAvailability ctx ambition =
     (let fs = filters ambition;
          result =
            (case nationPrereq fs of
               None \<Rightarrow> \<lparr>available = True, reasons = []\<rparr>
             | Some nation \<Rightarrow>
                 if nation \<noteq> [] \<and> selectedNation ctx \<noteq> [] \<and> nation \<noteq> selectedNation ctx
                 then \<lparr>available = False,
                       reasons = [''Requires '' @ js_text (nationPrereqName fs)]\<rparr>
                 else \<lparr>available = True, reasons = []\<rparr>)
      in case familyClasses fs of
           None \<Rightarrow> Inr result
         | Some classes \<Rightarrow>
             if classes \<noteq> [] \<and> selectedFamilies ctx \<noteq> {}
             then (if list_ex (\<lambda>fc. fc \<in> selectedFamilies ctx) classes then Inr result
                   else (case familyClassNames fs of
                           None \<Rightarrow> Inl TypeError
                         | Some names \<Rightarrow>
                             Inr \<lparr>available = False,
                                  reasons = reasons result
                                    @ [''Preferred by: '' @ join '', '' names]\<rparr>))
             else Inr result)"

text \<open>The tier derived from the completed count, and the three filters of \<open>filterAmbitions\<close>.\<close>

definition tierFilter :: "completed_count \<Rightarrow> int option" where
  "tierFilter c = (case c of All_counts \<Rightarrow> None | Completed n \<Rightarrow> Some (int n + 1))"

definition tier_pass :: "int option \<Rightarrow> goal \<Rightarrow> bool" where
  "tier_pass tier ambition =
     (case tier of
        None \<Rightarrow> True
      | Some t \<Rightarrow> \<not> (minTier ambition > t \<or> maxTier ambition < t))"

definition class_pass :: "int option \<Rightarrow> goal \<Rightarrow> bool" where
  "class_pass cls ambition =
     (case cls of None \<Rightarrow> True | Some c \<Rightarrow> \<not> (ambitionClass ambition \<noteq> c))"

text \<open>
  \<open>trim\<close> and \<open>toLowerCase\<close> on ASCII text: the white space stripped is tab, line
  feed, vertical tab, form feed, carriage return and space, and the letters lower-cased
  are A to Z.
\<close>

definition is_js_space :: "char \<Rightarrow> bool" where
  "is_js_space c = (let n = (of_char c :: nat) in (9 \<le> n \<and> n \<le> 13) \<or> n = 32)"

definition trim :: "string \<Rightarrow> string" where
  "trim s = rev (dropWhile is_js_space (rev (dropWhile is_js_space s)))"

definition toLowerCase :: "string \<Rightarrow> string" where
  "toLowerCase s = map to_lower s"

fun includes_str :: "string \<Rightarrow> string \<Rightarrow> bool" where
  "includes_str [] t = (t = [])"
| "includes_str (c # cs) t = (startswith (c # cs) t \<or> includes_str cs t)"

definition search_pass :: "string \<Rightarrow> goal \<Rightarrow> bool" where
  "search_pass searchTerm ambition =
     (if searchTerm = [] then True
      else includes_str
             (toLowerCase (join '' ''
                ([name ambition, ambitionClassName ambition, helpText ambition]
                 @ (case familyClassNames (filters ambition) of None \<Rightarrow> [] | Some ns \<Rightarrow> ns))))
             searchTerm)"

definition filterAmbitions :: "filter_context \<Rightarrow> goal list \<Rightarrow> goal list" where
  "filterAmbitions ctx ambitions =
     filter (\<lambda>ambition.
        tier_pass (tierFilter (completedCount ctx)) ambition
        \<and> class_pass (selectedClass ctx) ambition
        \<and> search_pass (trim (toLowerCase (searchInput ctx))) ambition) ambitions"

definition is_national :: "goal \<Rightarrow> bool" where
  "is_national a = (victoryEligible (flags a) \<and> minTier a = 10)"

text \<open>
  The comparator of the sort, and \<open>Array.prototype.sort\<close>: a stable sort, here by
  insertion from the right, which for a consistent comparator gives the one sorted
  arrangement that keeps equal elements in their order. Tiers are integers here; the
  page holds them as doubles, which agree with integers up to \<open>2 ^ 53\<close>.
\<close>

definition compare :: "(string \<Rightarrow> string \<Rightarrow> int) \<Rightarrow> goal \<times> availability \<Rightarrow> goal \<times> availability \<Rightarrow> int" where
  "compare localeCompare a b =
     (if available (snd a) \<noteq> available (snd b) then (if available (snd a) then - 1 else 1)
      else if minTier (fst a) \<noteq> minTier (fst b) then minTier (fst a) - minTier (fst b)
      else localeCompare (name (fst a)) (name (fst b)))"

fun insert_by :: "('a \<Rightarrow> 'a \<Rightarrow> int) \<Rightarrow> 'a \<Rightarrow> 'a list \<Rightarrow> 'a list" where
  "insert_by cmp x [] = [x]"
| "insert_by cmp x (y # ys) = (if cmp x y \<le> 0 then x # y # ys else y # insert_by cmp x ys)"

definition js_sort :: "('a \<Rightarrow> 'a \<Rightarrow> int) \<Rightarrow> 'a list \<Rightarrow> 'a list" where
  "js_sort cmp xs = foldr (insert_by cmp) xs []"

fun withAvailability :: "filter_context \<Rightarrow> goal list \<Rightarrow> js_error + (goal \<times> availability) list" where
  "withAvailability ctx [] = Inr []"
| "withAvailability ctx (ambition # rest) =
     (case checkAvailability ctx ambition of
        Inl err \<Rightarrow> Inl err
      | Inr availability \<Rightarrow>
          (case withAvailability ctx rest of
             Inl err \<Rightarrow> Inl err
           | Inr others \<Rightarrow> Inr ((ambition, availability) # others)))"

definition processAmbitions ::
  "(string \<Rightarrow> string \<Rightarrow> int) \<Rightarrow> filter_context \<Rightarrow> goal list
   \<Rightarrow> js_error + (goal \<times> availability) list" where
  "processAmbitions localeCompare ctx ambitions =
     (case withAvailability ctx ambitions of
        Inl err \<Rightarrow> Inl err
      | Inr with_availability \<Rightarrow>
          Inr (if showUnavailable ctx then js_sort (compare localeCompare) with_availability
               else filter (\<lambda>a. available (snd a))
                      (js_sort (compare localeCompare) with_availability)))"

text \<open>
  \<open>filterAndRender\<close> up to the lists it hands to the renderer: the regular ambitions
  and the national ones, each filtered and then processed.
\<close>

definition filterAndRender ::
  "(string \<Rightarrow> string \<Rightarrow> int) \<Rightarrow> filter_context \<Rightarrow> goal list
   \<Rightarrow> js_error + ((goal \<times> availability) list \<times> (goal \<times> availability) list)" where
  "filterAndRender localeCompare ctx ambitions =
     (case processAmbitions localeCompare ctx
             (filterAmbitions ctx (filter (\<lambda>a. \<not> is_national a) ambitions)) of
        Inl err \<Rightarrow> Inl err
      | Inr finalRegular \<Rightarrow>
          (case processAmbitions localeCompare ctx
                  (filterAmbitions ctx (filter is_national ambitions)) of
             Inl err \<Rightarrow> Inl err
           | Inr finalNational \<Rightarrow> Inr (finalRegular, finalNational)))"

text \<open>
  What the language asks of a comparator for the sort to be defined: the sign of
  \<open>cmp a b\<close> is the opposite of the sign of \<open>cmp b a\<close>, and "not greater" is transitive.
\<close>

definition consistent_comparator :: "('a \<Rightarrow> 'a \<Rightarrow> int) \<Rightarrow> bool" where
  "consistent_comparator cmp =
     ((\<forall>a b. (cmp a b < 0) = (0 < cmp b a))
      \<and> (\<forall>a b c. cmp a b \<le> 0 \<and> cmp b c \<le> 0 \<longrightarrow> cmp a c \<le> 0))"

text \<open>
  Examples for the properties below: comparison by character codes as a collation, an
  ambition with a name, tiers and filters, and a filter context with nothing selected.
\<close>

fun code_compare :: "string \<Rightarrow> string \<Rightarrow> int" where
  "code_compare [] [] = 0"
| "code_compare [] (y # ys) = - 1"
| "code_compare (x # xs) [] = 1"
| "code_compare (x # xs) (y # ys) =
     (if (of_char x :: nat) < of_char y then - 1
      else if (of_char y :: nat) < of_char x then 1
      else code_compare xs ys)"

text \<open>A collation that ignores the case of letters, as the collations of browsers do first.\<close>

definition caseless_compare :: "string \<Rightarrow> string \<Rightarrow> int" where
  "caseless_compare a b = code_compare (toLowerCase a) (toLowerCase b)"

definition ambition_of :: "string \<Rightarrow> int \<Rightarrow> int \<Rightarrow> string option \<Rightarrow> string list option \<Rightarrow> goal" where
  "ambition_of n lo hi nation classes =
     \<lparr>goal_id = n, name = n, shortName = [], helpText = [], ambitionClass = 3,
      ambitionClassName = ''Cities'', minTier = lo, maxTier = hi, subjectWeight = 5,
      dlc = None, requirements = Map.empty,
      filters = \<lparr>techPrereq = None, techPrereqName = None, techObsolete = None,
                 techObsoleteName = None, nationPrereq = nation,
                 nationPrereqName = map_option format_type_name nation,
                 familyClasses = classes,
                 familyClassNames = map_option (map format_type_name) classes,
                 religions = None, religionNames = None, invalidGameOptions = None\<rparr>,
      flags = \<lparr>victoryEligible = False, blockComplete = False, isGlobal = False\<rparr>,
      eventSource = None\<rparr>"

definition no_selection :: filter_context where
  "no_selection =
     \<lparr>selectedNation = [], selectedFamilies = {}, completedCount = All_counts,
      selectedClass = None, searchInput = [], showUnavailable = True\<rparr>"


section \<open>Properties\<close>

subsection \<open>Catalog precedence\<close>









subsection \<open>Link fallback\<close>

lemma split0_absent: "sep \<notin> set s \<Longrightarrow> split0 sep s = s"
  by (auto simp: split0_def)

lemma first_variant_split0:
  "(if CHR ''~'' \<in> set s then split0 CHR ''~'' s else s) = split0 CHR ''~'' s"
  by (simp add: split0_absent)

lemma probe_no_text:
  "\<forall>lookup \<in> set lookups. \<forall>key. lookup ref = Some key \<longrightarrow> texts key = None
   \<Longrightarrow> probe texts lookups ref = None"
  by (induction lookups) (auto split: option.splits)


lemma probe_skips:
  "\<forall>lookup \<in> set before. \<forall>key. lookup ref = Some key \<longrightarrow> texts key = None
   \<Longrightarrow> probe texts (before @ rest) ref = probe texts rest ref"
  by (induction before) (auto split: option.splits)



lemma title_from_Nil_iff: "title_from b s = [] \<longleftrightarrow> s = []"
  by (cases s) auto

lemma startswith_drop_Nil: "startswith ref p \<Longrightarrow> drop (length p) ref = [] \<Longrightarrow> ref = p"
  by (metis append_take_drop_id append_Nil2 startswith_def)

lemma format_stripped_nonempty:
  "ref \<noteq> [] \<Longrightarrow> ref \<notin> set ps \<Longrightarrow> format_stripped ps ref \<noteq> []"
proof (induction ps)
  case Nil
  then show ?case by simp
next
  case (Cons p ps)
  show ?case
  proof (cases "startswith ref p")
    case True
    have "drop (length p) ref \<noteq> []"
      using startswith_drop_Nil [OF True] Cons.prems(2) by auto
    with True show ?thesis
      by (simp add: title_def title_from_Nil_iff replace_underscores_def)
  next
    case False
    with Cons show ?thesis by simp
  qed
qed




subsection \<open>Probing past a table without a text entry\<close>

text \<open>
  C10, as the claim states it, fails: the law table holds the reference LAW_, the text
  catalog has no entry for its name key, and the display string of link(LAW_) is empty,
  because LAW_ is itself the first known prefix and nothing is left behind it.
\<close>

theorem link_missing_text_counterexample:
  "[''LAW_'' \<mapsto> ''TEXT_LAW_NAME''] ''LAW_'' = Some ''TEXT_LAW_NAME''
   \<and> (Map.empty :: texts) ''TEXT_LAW_NAME'' = None
   \<and> resolve_link Map.empty [(''law'', [''LAW_'' \<mapsto> ''TEXT_LAW_NAME''])] ''link(LAW_)'' = []"
  by (simp add: resolve_link_def startswith_def replace_link_def split0_def link_prefixes_def
      title_def replace_underscores_def)

text \<open>
  C10, amended. A table that holds the reference under a name key the text catalog does
  not have is passed over and the next tables are probed: the first table holding the
  reference with a text entry gives the display string, the first variant of that text.
  When no table holding the reference has a text entry, the result is that of the
  prefix-stripping formatter (the reference itself when no prefix matches), and it is
  not empty provided the reference is not empty and is not itself one of the known
  prefixes.
\<close>

theorem link_missing_text_falls_through:
  "((\<forall>lookup \<in> set before. \<forall>key. lookup ref = Some key \<longrightarrow> texts key = None)
      \<and> map snd type_lookups = before @ lookup # after
      \<and> lookup ref = Some text_key \<and> texts text_key = Some resolved
      \<and> split0 CHR '','' group1 = ref
    \<longrightarrow> replace_link texts type_lookups group1 = split0 CHR ''~'' resolved)
   \<and> ((\<forall>lookup \<in> set (map snd type_lookups'). \<forall>key. lookup ref' = Some key \<longrightarrow> texts' key = None)
      \<and> split0 CHR '','' group1' = ref'
    \<longrightarrow> replace_link texts' type_lookups' group1' = format_stripped link_prefixes ref'
        \<and> (ref' \<noteq> [] \<and> ref' \<notin> set link_prefixes
             \<longrightarrow> replace_link texts' type_lookups' group1' \<noteq> []))"
proof (intro conjI impI; (elim conjE)?)
  assume skip: "\<forall>lookup \<in> set before. \<forall>key. lookup ref = Some key \<longrightarrow> texts key = None"
    and tables: "map snd type_lookups = before @ lookup # after"
    and hit: "lookup ref = Some text_key"
    and entry: "texts text_key = Some resolved"
    and ref: "split0 CHR '','' group1 = ref"
  have "probe texts (before @ lookup # after) ref = probe texts (lookup # after) ref"
    using skip by (rule probe_skips)
  also have "\<dots> = Some (split0 CHR ''~'' resolved)"
    using hit entry by (simp add: first_variant_split0)
  finally show "replace_link texts type_lookups group1 = split0 CHR ''~'' resolved"
    using tables ref by (simp add: replace_link_def)
next
  assume notext: "\<forall>lookup \<in> set (map snd type_lookups'). \<forall>key. lookup ref' = Some key \<longrightarrow> texts' key = None"
    and ref: "split0 CHR '','' group1' = ref'"
  have "probe texts' (map snd type_lookups') ref' = None"
    using notext by (rule probe_no_text)
  then show "replace_link texts' type_lookups' group1' = format_stripped link_prefixes ref'"
    using ref by (simp add: replace_link_def)
next
  assume notext: "\<forall>lookup \<in> set (map snd type_lookups'). \<forall>key. lookup ref' = Some key \<longrightarrow> texts' key = None"
    and ref: "split0 CHR '','' group1' = ref'"
    and nonempty: "ref' \<noteq> []" and noprefix: "ref' \<notin> set link_prefixes"
  have "probe texts' (map snd type_lookups') ref' = None"
    using notext by (rule probe_no_text)
  then have "replace_link texts' type_lookups' group1' = format_stripped link_prefixes ref'"
    using ref by (simp add: replace_link_def)
  moreover have "format_stripped link_prefixes ref' \<noteq> []"
    using nonempty noprefix by (rule format_stripped_nonempty)
  ultimately show "replace_link texts' type_lookups' group1' \<noteq> []"
    by simp
qed


text \<open>
  The law table holds X_REF under a name key without text, the tech table holds it with
  the text "Iron~Irons": the display string is "Iron". With an empty text catalog,
  LAW_FOO falls back to "Foo".
\<close>

theorem link_missing_text_falls_through_witness:
  "[''X_REF'' \<mapsto> ''TEXT_A''] ''X_REF'' = Some ''TEXT_A''
   \<and> [''TEXT_B'' \<mapsto> ''Iron~Irons''] ''TEXT_A'' = None
   \<and> map snd [(''law'', [''X_REF'' \<mapsto> ''TEXT_A'']), (''tech'', [''X_REF'' \<mapsto> ''TEXT_B''])]
       = [[''X_REF'' \<mapsto> ''TEXT_A'']] @ [''X_REF'' \<mapsto> ''TEXT_B''] # []
   \<and> [''X_REF'' \<mapsto> ''TEXT_B''] ''X_REF'' = Some ''TEXT_B''
   \<and> [''TEXT_B'' \<mapsto> ''Iron~Irons''] ''TEXT_B'' = Some ''Iron~Irons''
   \<and> split0 CHR '','' ''X_REF,1'' = ''X_REF''
   \<and> replace_link [''TEXT_B'' \<mapsto> ''Iron~Irons'']
        [(''law'', [''X_REF'' \<mapsto> ''TEXT_A'']), (''tech'', [''X_REF'' \<mapsto> ''TEXT_B''])]
        ''X_REF,1'' = ''Iron''
   \<and> [''LAW_FOO'' \<mapsto> ''TEXT_A''] ''LAW_FOO'' = Some ''TEXT_A''
   \<and> (Map.empty :: texts) ''TEXT_A'' = None
   \<and> split0 CHR '','' ''LAW_FOO'' = ''LAW_FOO''
   \<and> ''LAW_FOO'' \<noteq> [] \<and> ''LAW_FOO'' \<notin> set link_prefixes
   \<and> replace_link Map.empty [(''law'', [''LAW_FOO'' \<mapsto> ''TEXT_A''])] ''LAW_FOO'' = ''Foo''
   \<and> replace_link Map.empty [(''law'', [''LAW_FOO'' \<mapsto> ''TEXT_A''])] ''LAW_FOO'' \<noteq> []"
proof -
  let ?texts = "[''TEXT_B'' \<mapsto> ''Iron~Irons'']"
  let ?tl = "[(''law'', [''X_REF'' \<mapsto> ''TEXT_A'']), (''tech'', [''X_REF'' \<mapsto> ''TEXT_B''])]"
  let ?tl' = "[(''law'', [''LAW_FOO'' \<mapsto> ''TEXT_A''])]"
  have a1: "\<forall>lookup \<in> set [[''X_REF'' \<mapsto> ''TEXT_A'']]. \<forall>key. lookup ''X_REF'' = Some key
        \<longrightarrow> ?texts key = None"
    by simp
  have a2: "map snd ?tl = [[''X_REF'' \<mapsto> ''TEXT_A'']] @ [''X_REF'' \<mapsto> ''TEXT_B''] # []"
    by simp
  have a3: "[''X_REF'' \<mapsto> ''TEXT_B''] ''X_REF'' = Some ''TEXT_B''"
    by simp
  have a4: "?texts ''TEXT_B'' = Some ''Iron~Irons''"
    by simp
  have a5: "split0 CHR '','' ''X_REF,1'' = ''X_REF''"
    by (simp add: split0_def)
  have a6: "split0 CHR ''~'' ''Iron~Irons'' = ''Iron''"
    by (simp add: split0_def)
  have b1: "\<forall>lookup \<in> set (map snd ?tl').
         \<forall>key. lookup ''LAW_FOO'' = Some key \<longrightarrow> (Map.empty :: texts) key = None"
    by simp
  have b2: "split0 CHR '','' ''LAW_FOO'' = ''LAW_FOO''"
    by (simp add: split0_def)
  have b3: "''LAW_FOO'' \<noteq> []"
    by simp
  have b4: "''LAW_FOO'' \<notin> set link_prefixes"
    by (simp add: link_prefixes_def)
  have b5: "format_stripped link_prefixes ''LAW_FOO'' = ''Foo''"
    by code_simp
  note inst = link_missing_text_falls_through
    [of "[[''X_REF'' \<mapsto> ''TEXT_A'']]" "''X_REF''" ?texts ?tl "[''X_REF'' \<mapsto> ''TEXT_B'']" "[]"
        "''TEXT_B''" "''Iron~Irons''" "''X_REF,1''" ?tl' "''LAW_FOO''" Map.empty "''LAW_FOO''"]
  have ha: "(\<forall>lookup \<in> set [[''X_REF'' \<mapsto> ''TEXT_A'']]. \<forall>key. lookup ''X_REF'' = Some key
               \<longrightarrow> ?texts key = None)
      \<and> map snd ?tl = [[''X_REF'' \<mapsto> ''TEXT_A'']] @ [''X_REF'' \<mapsto> ''TEXT_B''] # []
      \<and> [''X_REF'' \<mapsto> ''TEXT_B''] ''X_REF'' = Some ''TEXT_B''
      \<and> ?texts ''TEXT_B'' = Some ''Iron~Irons''
      \<and> split0 CHR '','' ''X_REF,1'' = ''X_REF''"
    using a1 a2 a3 a4 a5 by (intro conjI)
  have r1: "replace_link ?texts ?tl ''X_REF,1'' = split0 CHR ''~'' ''Iron~Irons''"
    using conjunct1 [OF inst] ha by (rule mp)
  have hb: "(\<forall>lookup \<in> set (map snd ?tl').
         \<forall>key. lookup ''LAW_FOO'' = Some key \<longrightarrow> (Map.empty :: texts) key = None)
      \<and> split0 CHR '','' ''LAW_FOO'' = ''LAW_FOO''"
    using b1 b2 by (intro conjI)
  have r2: "replace_link Map.empty ?tl' ''LAW_FOO'' = format_stripped link_prefixes ''LAW_FOO''
      \<and> (''LAW_FOO'' \<noteq> [] \<and> ''LAW_FOO'' \<notin> set link_prefixes
           \<longrightarrow> replace_link Map.empty ?tl' ''LAW_FOO'' \<noteq> [])"
    using conjunct2 [OF inst] hb by (rule mp)
  have r3: "replace_link Map.empty ?tl' ''LAW_FOO'' \<noteq> []"
    using conjunct2 [OF r2] conjI [OF b3 b4] by (rule mp)
  have a0: "[''X_REF'' \<mapsto> ''TEXT_A''] ''X_REF'' = Some ''TEXT_A''"
    by simp
  have a0': "?texts ''TEXT_A'' = None"
    by simp
  have b0: "[''LAW_FOO'' \<mapsto> ''TEXT_A''] ''LAW_FOO'' = Some ''TEXT_A''"
    by simp
  have b0': "(Map.empty :: texts) ''TEXT_A'' = None"
    by simp
  from a0 a0' a2 a3 a4 a5 r1 [unfolded a6] b0 b0' b2 b3 b4 conjunct1 [OF r2, unfolded b5] r3
  show ?thesis
    by (intro conjI)
qed

subsection \<open>What the parser copies from a record\<close>

lemma parse_entries_mem:
  "parse_entries texts type_lookups acc es = Inr goals \<Longrightarrow> g \<in> set goals
   \<Longrightarrow> g \<in> set acc \<or> (\<exists>entry \<in> set es. parse_goal texts type_lookups entry = Inr (Some g))"
proof (induction es arbitrary: acc)
  case Nil
  then show ?case by simp
next
  case (Cons e es)
  show ?case
  proof (cases "parse_goal texts type_lookups e")
    case (Inl err)
    with Cons.prems show ?thesis by simp
  next
    case (Inr r)
    show ?thesis
    proof (cases r)
      case None
      with Inr Cons.prems have "parse_entries texts type_lookups acc es = Inr goals"
        by simp
      from Cons.IH [OF this Cons.prems(2)] show ?thesis by auto
    next
      case (Some g')
      with Inr Cons.prems have "parse_entries texts type_lookups (acc @ [g']) es = Inr goals"
        by simp
      from Cons.IH [OF this Cons.prems(2)] Inr Some show ?thesis by auto
    qed
  qed
qed

lemma parse_goals_mem:
  assumes "parse_goals dir = Inr goals" and "g \<in> set goals"
  shows "\<exists>root entry. files dir ''goal.xml'' = Some root \<and> entry \<in> set (findall root ''Entry'')
      \<and> parse_goal (build_text_lookup (text_files dir)) (build_type_lookups (files dir)) entry
          = Inr (Some g)"
proof (cases "files dir ''goal.xml''")
  case None
  with assms show ?thesis by (simp add: parse_goals_def)
next
  case (Some root)
  with assms(1) have "parse_entries (build_text_lookup (text_files dir))
      (build_type_lookups (files dir)) [] (findall root ''Entry'') = Inr goals"
    by (simp add: parse_goals_def)
  from parse_entries_mem [OF this assms(2)] Some show ?thesis by auto
qed

lemma parse_goal_fields:
  assumes "parse_goal texts type_lookups entry = Inr (Some g)"
  shows "get_text entry ''zType'' None = Some (goal_id g)"
    and "minTier g = get_int entry ''iMinTier'' 1"
    and "maxTier g = get_int entry ''iMaxTier'' 10"
    and "subjectWeight g = get_int entry ''iSubjectWeight'' 0"
    and "eventSource g = map_of EVENT_ONLY_AMBITIONS (goal_id g)"
  using assms
  by (auto simp: parse_goal_def split: option.splits if_splits sum.splits)

lemma get_int_omitted: "find_child entry t = None \<Longrightarrow> get_int entry t d = d"
  by (simp add: get_int_def truthy_text_def)


lemma goal_dir_entry:
  assumes "files (goal_dir scalars) ''goal.xml'' = Some root"
    and "entry \<in> set (findall root ''Entry'')"
  shows "entry = goal_entry scalars"
  using assms by (auto simp: goal_dir_def findall_def goal_entry_def)

lemma goal_dir_single:
  assumes "map_sum id (map goal_id) (parse_goals dir) = Inr [i]"
  obtains g where "parse_goals dir = Inr [g]"
proof (cases "parse_goals dir")
  case (Inl err)
  with assms show ?thesis by simp
next
  case (Inr goals)
  with assms have "map goal_id goals = [i]" by simp
  then obtain g where "goals = [g]" by auto
  with Inr that show ?thesis by simp
qed

subsection \<open>Tier ordering\<close>

text \<open>
  C1, as the claim states it, fails: a record with iMinTier 5 and iMaxTier 3 is published
  with minTier 5 and maxTier 3.
\<close>

theorem tier_ordering_counterexample:
  "map_sum id (map minTier)
     (parse_goals (goal_dir [(''zType'', ''GOAL_X''), (''iMinTier'', ''5''), (''iMaxTier'', ''3'')]))
     = Inr [5]
   \<and> map_sum id (map maxTier)
     (parse_goals (goal_dir [(''zType'', ''GOAL_X''), (''iMinTier'', ''5''), (''iMaxTier'', ''3'')]))
     = Inr [3]"
  by code_simp

text \<open>
  C1, amended. Every ambition of the published list comes from an Entry of goal.xml
  with its id; its minTier is that record's iMinTier and its maxTier that record's
  iMaxTier, with 1 and 10 standing in for a field the record omits. The parser does
  not compare the two: minTier \<open>\<le>\<close> maxTier holds for the ambition whenever the record's
  values, after the defaults, are in that order.
\<close>

theorem tiers_copied_from_record:
  assumes "parse_goals dir = Inr goals" and "g \<in> set goals"
  shows "\<exists>root entry. files dir ''goal.xml'' = Some root \<and> entry \<in> set (findall root ''Entry'')
      \<and> get_text entry ''zType'' None = Some (goal_id g)
      \<and> minTier g = get_int entry ''iMinTier'' 1
      \<and> maxTier g = get_int entry ''iMaxTier'' 10
      \<and> (find_child entry ''iMinTier'' = None \<longrightarrow> minTier g = 1)
      \<and> (find_child entry ''iMaxTier'' = None \<longrightarrow> maxTier g = 10)
      \<and> (get_int entry ''iMinTier'' 1 \<le> get_int entry ''iMaxTier'' 10 \<longrightarrow> minTier g \<le> maxTier g)"
proof -
  from parse_goals_mem [OF assms] obtain root entry where
    root: "files dir ''goal.xml'' = Some root" and entry: "entry \<in> set (findall root ''Entry'')"
    and pg: "parse_goal (build_text_lookup (text_files dir)) (build_type_lookups (files dir)) entry
             = Inr (Some g)"
    by blast
  note f = parse_goal_fields [OF pg]
  have lo: "find_child entry ''iMinTier'' = None \<longrightarrow> minTier g = 1"
    using f(2) by (simp add: get_int_omitted)
  have hi: "find_child entry ''iMaxTier'' = None \<longrightarrow> maxTier g = 10"
    using f(3) by (simp add: get_int_omitted)
  have ord: "get_int entry ''iMinTier'' 1 \<le> get_int entry ''iMaxTier'' 10 \<longrightarrow> minTier g \<le> maxTier g"
    using f(2,3) by simp
  from root entry f(1,2,3) lo hi ord show ?thesis
    by (intro exI conjI)
qed

text \<open>
  A record with iMinTier 3 and no iMaxTier: the ambition has minTier 3 and maxTier 10.
\<close>

theorem tiers_copied_from_record_witness:
  "\<exists>g. parse_goals (goal_dir [(''zType'', ''GOAL_X''), (''iMinTier'', ''3'')]) = Inr [g]
      \<and> goal_id g = ''GOAL_X'' \<and> minTier g = 3 \<and> maxTier g = 10 \<and> minTier g \<le> maxTier g"
proof -
  let ?scalars = "[(''zType'', ''GOAL_X''), (''iMinTier'', ''3'')]"
  have "map_sum id (map goal_id) (parse_goals (goal_dir ?scalars)) = Inr [''GOAL_X'']"
    by code_simp
  then obtain g where g: "parse_goals (goal_dir ?scalars) = Inr [g]"
    by (rule goal_dir_single)
  have mem: "g \<in> set [g]" by simp
  from tiers_copied_from_record [OF g mem] obtain root entry where
    all: "files (goal_dir ?scalars) ''goal.xml'' = Some root \<and> entry \<in> set (findall root ''Entry'')
      \<and> get_text entry ''zType'' None = Some (goal_id g)
      \<and> minTier g = get_int entry ''iMinTier'' 1
      \<and> maxTier g = get_int entry ''iMaxTier'' 10
      \<and> (find_child entry ''iMinTier'' = None \<longrightarrow> minTier g = 1)
      \<and> (find_child entry ''iMaxTier'' = None \<longrightarrow> maxTier g = 10)
      \<and> (get_int entry ''iMinTier'' 1 \<le> get_int entry ''iMaxTier'' 10 \<longrightarrow> minTier g \<le> maxTier g)"
    by (elim exE)
  from all have root: "files (goal_dir ?scalars) ''goal.xml'' = Some root"
    and entry: "entry \<in> set (findall root ''Entry'')"
    and zt: "get_text entry ''zType'' None = Some (goal_id g)"
    and lo: "minTier g = get_int entry ''iMinTier'' 1"
    and hi: "find_child entry ''iMaxTier'' = None \<longrightarrow> maxTier g = 10"
    by blast+
  have e: "entry = goal_entry ?scalars"
    using root entry by (rule goal_dir_entry)
  have "get_text (goal_entry ?scalars) ''zType'' None = Some ''GOAL_X''"
    by code_simp
  with zt e have "goal_id g = ''GOAL_X''" by simp
  moreover have "get_int (goal_entry ?scalars) ''iMinTier'' 1 = 3"
    by code_simp
  with lo e have "minTier g = 3" by simp
  moreover have "find_child (goal_entry ?scalars) ''iMaxTier'' = None"
    by code_simp
  with hi e have "maxTier g = 10" by simp
  ultimately show ?thesis using g by auto
qed

subsection \<open>Event-only ambitions and their weight\<close>

text \<open>
  C3. The table of event-only ambitions is introduced in the source as the ambitions with
  subjectWeight 0, and the claim is that an ambition with an eventSource has
  subjectWeight 0. The code does not keep to it: the overlay is attached by id alone, and
  a record for GOAL_TAKE_CITY with iSubjectWeight 5 is published with its eventSource
  and with subjectWeight 5.
\<close>

theorem event_source_weight_failing_input:
  "map_sum id (map subjectWeight)
     (parse_goals (goal_dir [(''zType'', ''GOAL_TAKE_CITY''), (''iSubjectWeight'', ''5'')]))
     = Inr [5]
   \<and> map_sum id (map eventSource)
     (parse_goals (goal_dir [(''zType'', ''GOAL_TAKE_CITY''), (''iSubjectWeight'', ''5'')]))
     = Inr [Some \<lparr>eventName = Some ''Various conquest/rivalry events'', eventDlc = None,
                   trigger = ''Rivalry or conquest event chains''\<rparr>]"
  by code_simp

text \<open>
  How this comes about: for every ambition of the published list, the eventSource is the
  entry of the static table for the ambition's id, present exactly when the id is in the
  table, and the subjectWeight is the iSubjectWeight of the record the ambition comes
  from, 0 when the record omits it. Nothing relates the two.
\<close>

lemma event_source_from_table:
  assumes "parse_goals dir = Inr goals" and "g \<in> set goals"
  shows "eventSource g = map_of EVENT_ONLY_AMBITIONS (goal_id g)
      \<and> (eventSource g \<noteq> None \<longleftrightarrow> goal_id g \<in> fst ` set EVENT_ONLY_AMBITIONS)
      \<and> (\<exists>root entry. files dir ''goal.xml'' = Some root \<and> entry \<in> set (findall root ''Entry'')
           \<and> get_text entry ''zType'' None = Some (goal_id g)
           \<and> subjectWeight g = get_int entry ''iSubjectWeight'' 0
           \<and> (find_child entry ''iSubjectWeight'' = None \<longrightarrow> subjectWeight g = 0)
           \<and> (eventSource g \<noteq> None \<and> get_int entry ''iSubjectWeight'' 0 = 0
                \<longrightarrow> subjectWeight g = 0))"
proof -
  from parse_goals_mem [OF assms] obtain root entry where
    root: "files dir ''goal.xml'' = Some root" and entry: "entry \<in> set (findall root ''Entry'')"
    and pg: "parse_goal (build_text_lookup (text_files dir)) (build_type_lookups (files dir)) entry
             = Inr (Some g)"
    by blast
  note f = parse_goal_fields [OF pg]
  have present: "eventSource g \<noteq> None \<longleftrightarrow> goal_id g \<in> fst ` set EVENT_ONLY_AMBITIONS"
    using f(5) by (simp add: map_of_eq_None_iff)
  have omitted: "find_child entry ''iSubjectWeight'' = None \<longrightarrow> subjectWeight g = 0"
    using f(4) by (simp add: get_int_omitted)
  have zero: "eventSource g \<noteq> None \<and> get_int entry ''iSubjectWeight'' 0 = 0 \<longrightarrow> subjectWeight g = 0"
    using f(4) by simp
  from f(5) present root entry f(1,4) omitted zero show ?thesis
    by (intro exI conjI)
qed

subsection \<open>The simple-counts pass\<close>

lemma simple_counts_pass_other:
  "k \<noteq> ''type'' \<Longrightarrow> k \<notin> (\<lambda>p. fst (snd p)) ` set ps
   \<Longrightarrow> simple_counts_pass entry ps req k = req k"
  by (induction ps arbitrary: req) auto

lemma simple_counts_pass_type_kept:
  "req ''type'' = Some t \<Longrightarrow> ''type'' \<notin> (\<lambda>p. fst (snd p)) ` set ps
   \<Longrightarrow> simple_counts_pass entry ps req ''type'' = Some t"
  by (induction ps arbitrary: req) auto

lemma simple_counts_pass_type_set:
  "req ''type'' = None \<Longrightarrow> ''type'' \<notin> (\<lambda>p. fst (snd p)) ` set ps
   \<Longrightarrow> simple_counts_pass entry ps req ''type''
       = (if \<exists>p \<in> set ps. get_int entry (fst p) 0 > 0 then Some (JStr ''count'') else None)"
proof (induction ps arbitrary: req)
  case Nil
  then show ?case by simp
next
  case (Cons p ps)
  obtain x j d where p: "p = (x, j, d)" by (cases p)
  from Cons.prems(2) p have j: "j \<noteq> ''type''" and rest: "''type'' \<notin> (\<lambda>p. fst (snd p)) ` set ps"
    by auto
  show ?case
  proof (cases "get_int entry x 0 > 0")
    case True
    have "simple_counts_pass entry ps
            ((req(''type'' \<mapsto> JStr ''count''))(j \<mapsto> JInt (get_int entry x 0))) ''type''
          = Some (JStr ''count'')"
      using j rest by (intro simple_counts_pass_type_kept) auto
    with True p Cons.prems(1) show ?thesis by simp
  next
    case False
    with p Cons.IH [of req, OF Cons.prems(1) rest] show ?thesis by simp
  qed
qed

lemma simple_counts_pass_stored:
  "distinct (map (\<lambda>p. fst (snd p)) ps) \<Longrightarrow> ''type'' \<notin> (\<lambda>p. fst (snd p)) ` set ps
   \<Longrightarrow> (x, j, d) \<in> set ps
   \<Longrightarrow> simple_counts_pass entry ps req j
       = (if get_int entry x 0 > 0 then Some (JInt (get_int entry x 0)) else req j)"
proof (induction ps arbitrary: req)
  case Nil
  then show ?case by simp
next
  case (Cons p ps)
  obtain x' j' d' where p: "p = (x', j', d')" by (cases p)
  from Cons.prems p have j': "j' \<noteq> ''type''" "j' \<notin> (\<lambda>p. fst (snd p)) ` set ps"
    and dist: "distinct (map (\<lambda>p. fst (snd p)) ps)"
    and rest: "''type'' \<notin> (\<lambda>p. fst (snd p)) ` set ps"
    by auto
  show ?case
  proof (cases "(x, j, d) = p")
    case True
    with p have eq: "x' = x" "j' = j" "d' = d" by auto
    show ?thesis
      using j' p eq by (simp add: simple_counts_pass_other)
  next
    case False
    with Cons.prems(3) have mem: "(x, j, d) \<in> set ps" by simp
    then have "fst (snd (x, j, d)) \<in> (\<lambda>p. fst (snd p)) ` set ps" by (rule imageI)
    then have "j \<in> (\<lambda>p. fst (snd p)) ` set ps" by simp
    with j' rest have ne: "j \<noteq> j'" "j \<noteq> ''type''" by blast+
    show ?thesis
      using p ne Cons.IH [OF dist rest mem] by simp
  qed
qed

lemma simple_counts_keys:
  "distinct (map (\<lambda>p. fst (snd p)) simple_counts)"
  "''type'' \<notin> (\<lambda>p. fst (snd p)) ` set simple_counts"
  by (simp_all add: simple_counts_def)


text \<open>
  C2, as the claim states it, fails twice. A record with StartLaw and iCities 3 keeps the
  tag "law" through the simple-counts pass, which stores the count without tagging the
  record "count". And a record with the nonzero value iWonders -2 stores nothing.
\<close>

theorem simple_counts_tag_counterexample:
  "simple_counts_pass (goal_entry [(''StartLaw'', ''LAW_X''), (''iCities'', ''3'')]) simple_counts
     (theology_pass (goal_entry [(''StartLaw'', ''LAW_X''), (''iCities'', ''3'')])
        (law_pass (goal_entry [(''StartLaw'', ''LAW_X''), (''iCities'', ''3'')]) Map.empty))
     ''type'' = Some (JStr ''law'')
   \<and> simple_counts_pass (goal_entry [(''StartLaw'', ''LAW_X''), (''iCities'', ''3'')]) simple_counts
     (theology_pass (goal_entry [(''StartLaw'', ''LAW_X''), (''iCities'', ''3'')])
        (law_pass (goal_entry [(''StartLaw'', ''LAW_X''), (''iCities'', ''3'')]) Map.empty))
     ''cities'' = Some (JInt 3)
   \<and> get_int (goal_entry [(''iWonders'', ''-2'')]) ''iWonders'' 0 = - 2
   \<and> simple_counts_pass (goal_entry [(''iWonders'', ''-2'')]) simple_counts Map.empty ''wonders''
     = None
   \<and> simple_counts_pass (goal_entry [(''iWonders'', ''-2'')]) simple_counts Map.empty ''type''
     = None"
  by code_simp

text \<open>
  C2, amended. In the simple-counts pass, for every raw record and every pair of the
  fixed table, a value above zero is stored under its output key, and a value that is
  zero or negative leaves that key as it was. The record is tagged "count" only when it
  carries no type tag at all when the first such value is stored: a tag set by an earlier
  pass (required law, required theology) is kept; without one, the tag after the pass is
  "count" when some field of the table is above zero, and absent otherwise.
\<close>

theorem simple_counts_pass_tagging:
  "(\<forall>(xml_field, json_field, display_name) \<in> set simple_counts.
        simple_counts_pass entry simple_counts req json_field
        = (if get_int entry xml_field 0 > 0 then Some (JInt (get_int entry xml_field 0))
           else req json_field))
   \<and> (req ''type'' \<noteq> None
        \<longrightarrow> simple_counts_pass entry simple_counts req ''type'' = req ''type'')
   \<and> (req ''type'' = None
        \<longrightarrow> simple_counts_pass entry simple_counts req ''type''
            = (if \<exists>(xml_field, json_field, display_name) \<in> set simple_counts.
                    get_int entry xml_field 0 > 0
               then Some (JStr ''count'') else None))"
proof (intro conjI impI ballI)
  fix p assume p: "p \<in> set simple_counts"
  obtain x j d where xjd: "p = (x, j, d)" by (cases p)
  have "simple_counts_pass entry simple_counts req j
        = (if get_int entry x 0 > 0 then Some (JInt (get_int entry x 0)) else req j)"
    using simple_counts_keys p [unfolded xjd] by (rule simple_counts_pass_stored)
  with xjd show "case p of (xml_field, json_field, display_name) \<Rightarrow>
        simple_counts_pass entry simple_counts req json_field
        = (if get_int entry xml_field 0 > 0 then Some (JInt (get_int entry xml_field 0))
           else req json_field)"
    by simp
next
  assume "req ''type'' \<noteq> None"
  then obtain t where t: "req ''type'' = Some t" by auto
  from simple_counts_pass_type_kept [of req t simple_counts entry, OF t simple_counts_keys(2)] t
  show "simple_counts_pass entry simple_counts req ''type'' = req ''type''"
    by simp
next
  assume none: "req ''type'' = None"
  have "(\<exists>p \<in> set simple_counts. get_int entry (fst p) 0 > 0)
        = (\<exists>(xml_field, json_field, display_name) \<in> set simple_counts.
              get_int entry xml_field 0 > 0)"
    by (auto simp: case_prod_beta)
  with simple_counts_pass_type_set [of req simple_counts entry, OF none simple_counts_keys(2)]
  show "simple_counts_pass entry simple_counts req ''type''
        = (if \<exists>(xml_field, json_field, display_name) \<in> set simple_counts.
                get_int entry xml_field 0 > 0
           then Some (JStr ''count'') else None)"
    by simp
qed

text \<open>
  A record with iCities 3 and iWonders -2, after a law pass that set the tag "law" and on
  an empty record: the count of cities is stored in both, nothing is stored for wonders,
  the tag "law" is kept, and the empty record is tagged "count".
\<close>

theorem simple_counts_pass_tagging_witness:
  "simple_counts_pass (goal_entry [(''iCities'', ''3''), (''iWonders'', ''-2'')]) simple_counts
     [''type'' \<mapsto> JStr ''law''] ''cities'' = Some (JInt 3)
   \<and> simple_counts_pass (goal_entry [(''iCities'', ''3''), (''iWonders'', ''-2'')]) simple_counts
     [''type'' \<mapsto> JStr ''law''] ''wonders'' = None
   \<and> simple_counts_pass (goal_entry [(''iCities'', ''3''), (''iWonders'', ''-2'')]) simple_counts
     [''type'' \<mapsto> JStr ''law''] ''type'' = Some (JStr ''law'')
   \<and> simple_counts_pass (goal_entry [(''iCities'', ''3''), (''iWonders'', ''-2'')]) simple_counts
     Map.empty ''type'' = Some (JStr ''count'')"
proof -
  let ?e = "goal_entry [(''iCities'', ''3''), (''iWonders'', ''-2'')]"
  let ?req = "[''type'' \<mapsto> JStr ''law'']"
  have cities: "(''iCities'', ''cities'', ''Cities'') \<in> set simple_counts"
    by (simp add: simple_counts_def)
  have wonders: "(''iWonders'', ''wonders'', ''Wonders'') \<in> set simple_counts"
    by (simp add: simple_counts_def)
  have vc: "get_int ?e ''iCities'' 0 = 3" by code_simp
  have vw: "get_int ?e ''iWonders'' 0 = - 2" by code_simp
  note tagged = simple_counts_pass_tagging [of ?e ?req]
  note untagged = simple_counts_pass_tagging [of ?e Map.empty]
  have "simple_counts_pass ?e simple_counts ?req ''cities''
        = (if get_int ?e ''iCities'' 0 > 0 then Some (JInt (get_int ?e ''iCities'' 0))
           else ?req ''cities'')"
    using bspec [OF conjunct1 [OF tagged] cities] by simp
  then have r1: "simple_counts_pass ?e simple_counts ?req ''cities'' = Some (JInt 3)"
    by (simp add: vc)
  have "simple_counts_pass ?e simple_counts ?req ''wonders''
        = (if get_int ?e ''iWonders'' 0 > 0 then Some (JInt (get_int ?e ''iWonders'' 0))
           else ?req ''wonders'')"
    using bspec [OF conjunct1 [OF tagged] wonders] by simp
  then have r2: "simple_counts_pass ?e simple_counts ?req ''wonders'' = None"
    by (simp add: vw)
  have "?req ''type'' \<noteq> None" by simp
  with conjunct1 [OF conjunct2 [OF tagged]]
  have r3: "simple_counts_pass ?e simple_counts ?req ''type'' = Some (JStr ''law'')"
    by simp
  have some: "\<exists>(xml_field, json_field, display_name) \<in> set simple_counts.
                get_int ?e xml_field 0 > 0"
    using cities vc by force
  have "(Map.empty :: requirements) ''type'' = None" by simp
  with conjunct2 [OF conjunct2 [OF untagged]] some
  have r4: "simple_counts_pass ?e simple_counts Map.empty ''type'' = Some (JStr ''count'')"
    by simp
  from r1 r2 r3 r4 show ?thesis by (intro conjI)
qed

subsection \<open>Availability with nothing selected\<close>

text \<open>
  C4. When no nation is selected and no family class is selected, \<open>checkAvailability\<close>
  returns "available" with no reasons for every ambition, whatever its nation
  prerequisite and its family classes are; it raises nothing.
\<close>

theorem nothing_selected_all_available:
  assumes "selectedNation ctx = []" and "selectedFamilies ctx = {}"
  shows "checkAvailability ctx ambition = Inr \<lparr>available = True, reasons = []\<rparr>"
  using assms by (simp add: checkAvailability_def Let_def split: option.splits)

text \<open>An ambition for Rome only, preferred by two family classes, is available.\<close>

theorem nothing_selected_all_available_witness:
  "selectedNation no_selection = [] \<and> selectedFamilies no_selection = {}
   \<and> checkAvailability no_selection
        (ambition_of ''Found Rome'' 1 10 (Some ''NATION_ROME'')
           (Some [''FAMILYCLASS_LANDOWNERS'', ''FAMILYCLASS_CHAMPIONS'']))
       = Inr \<lparr>available = True, reasons = []\<rparr>"
proof -
  have n: "selectedNation no_selection = []" by (simp add: no_selection_def)
  have f: "selectedFamilies no_selection = {}" by (simp add: no_selection_def)
  from n f nothing_selected_all_available [OF n f] show ?thesis by (intro conjI)
qed

subsection \<open>The tier filter\<close>



subsection \<open>Hiding the unavailable ambitions\<close>

lemma checkAvailability_toggle:
  "checkAvailability (ctx\<lparr>showUnavailable := b\<rparr>) a = checkAvailability ctx a"
  by (simp add: checkAvailability_def Let_def cong: option.case_cong if_cong)

lemma withAvailability_toggle:
  "withAvailability (ctx\<lparr>showUnavailable := b\<rparr>) ambitions = withAvailability ctx ambitions"
  by (induction ambitions) (simp_all add: checkAvailability_toggle cong: sum.case_cong)

lemma filterAmbitions_toggle:
  "filterAmbitions (ctx\<lparr>showUnavailable := b\<rparr>) ambitions = filterAmbitions ctx ambitions"
  by (simp add: filterAmbitions_def)

lemma processAmbitions_toggle:
  "processAmbitions lc (ctx\<lparr>showUnavailable := False\<rparr>) ambitions
   = map_sum id (filter (\<lambda>a. available (snd a)))
       (processAmbitions lc (ctx\<lparr>showUnavailable := True\<rparr>) ambitions)"
  by (simp add: processAmbitions_def withAvailability_toggle split: sum.splits cong: sum.case_cong)

text \<open>
  C7. For every list of ambitions and every filter context, what \<open>processAmbitions\<close>
  returns with "show unavailable" off is what it returns with the toggle on, with the
  unavailable items filtered out (and the same error if one is raised); so is each of
  the two lists of \<open>filterAndRender\<close>. The sort runs on the full list in both cases and
  the filter keeps the order of what remains.
\<close>

theorem hide_unavailable_after_sorting:
  "processAmbitions localeCompare (ctx\<lparr>showUnavailable := False\<rparr>) ambitions
   = map_sum id (filter (\<lambda>a. available (snd a)))
       (processAmbitions localeCompare (ctx\<lparr>showUnavailable := True\<rparr>) ambitions)
   \<and> filterAndRender localeCompare (ctx\<lparr>showUnavailable := False\<rparr>) ambitions
   = map_sum id (map_prod (filter (\<lambda>a. available (snd a))) (filter (\<lambda>a. available (snd a))))
       (filterAndRender localeCompare (ctx\<lparr>showUnavailable := True\<rparr>) ambitions)"
proof
  show "processAmbitions localeCompare (ctx\<lparr>showUnavailable := False\<rparr>) ambitions
   = map_sum id (filter (\<lambda>a. available (snd a)))
       (processAmbitions localeCompare (ctx\<lparr>showUnavailable := True\<rparr>) ambitions)"
    by (rule processAmbitions_toggle)
  show "filterAndRender localeCompare (ctx\<lparr>showUnavailable := False\<rparr>) ambitions
   = map_sum id (map_prod (filter (\<lambda>a. available (snd a))) (filter (\<lambda>a. available (snd a))))
       (filterAndRender localeCompare (ctx\<lparr>showUnavailable := True\<rparr>) ambitions)"
    unfolding filterAndRender_def filterAmbitions_toggle processAmbitions_toggle
    by (simp split: sum.splits)
qed

text \<open>
  Greece is selected. Of three ambitions, the one for Rome only is unavailable: with the
  toggle on the list is A, B, Z, with the toggle off it is A, B.
\<close>

theorem hide_unavailable_after_sorting_witness:
  "map_sum id (map (\<lambda>a. goal_id (fst a)))
     (processAmbitions code_compare
        (no_selection\<lparr>selectedNation := ''NATION_GREECE'', showUnavailable := True\<rparr>)
        [ambition_of ''Z'' 1 10 (Some ''NATION_ROME'') None, ambition_of ''B'' 2 10 None None,
         ambition_of ''A'' 2 10 None None])
   = Inr [''A'', ''B'', ''Z'']
   \<and> map_sum id (map (\<lambda>a. goal_id (fst a)))
     (processAmbitions code_compare
        (no_selection\<lparr>selectedNation := ''NATION_GREECE'', showUnavailable := False\<rparr>)
        [ambition_of ''Z'' 1 10 (Some ''NATION_ROME'') None, ambition_of ''B'' 2 10 None None,
         ambition_of ''A'' 2 10 None None])
   = Inr [''A'', ''B'']"
proof -
  let ?ctx = "no_selection\<lparr>selectedNation := ''NATION_GREECE''\<rparr>"
  let ?l = "[ambition_of ''Z'' 1 10 (Some ''NATION_ROME'') None, ambition_of ''B'' 2 10 None None,
         ambition_of ''A'' 2 10 None None]"
  have on: "map_sum id (map (\<lambda>a. goal_id (fst a)))
     (processAmbitions code_compare (?ctx\<lparr>showUnavailable := True\<rparr>) ?l)
     = Inr [''A'', ''B'', ''Z'']"
    by code_simp
  have filtered: "map_sum id (map (\<lambda>a. goal_id (fst a)))
     (map_sum id (filter (\<lambda>a. available (snd a)))
        (processAmbitions code_compare (?ctx\<lparr>showUnavailable := True\<rparr>) ?l))
     = Inr [''A'', ''B'']"
    by code_simp
  have off: "map_sum id (map (\<lambda>a. goal_id (fst a)))
     (processAmbitions code_compare (?ctx\<lparr>showUnavailable := False\<rparr>) ?l)
     = Inr [''A'', ''B'']"
    using filtered
    unfolding conjunct1 [OF hide_unavailable_after_sorting [of code_compare ?ctx ?l]] .
  from on off show ?thesis by simp
qed

subsection \<open>The order of the ranked lists\<close>

lemma consistent_total:
  assumes "consistent_comparator cmp"
  shows "cmp a b \<le> 0 \<or> cmp b a \<le> 0"
proof (cases "cmp a b \<le> 0")
  case True
  then show ?thesis by simp
next
  case False
  then have "0 < cmp a b" by simp
  with assms have "cmp b a < 0" by (simp add: consistent_comparator_def)
  then show ?thesis by simp
qed

lemma consistent_trans:
  assumes "consistent_comparator cmp" and "cmp a b \<le> 0" and "cmp b c \<le> 0"
  shows "cmp a c \<le> 0"
  using assms unfolding consistent_comparator_def by blast

lemma set_insert_by: "set (insert_by cmp x ys) = insert x (set ys)"
  by (induction ys) auto

lemma sorted_insert_by:
  assumes "consistent_comparator cmp" and "sorted_wrt (\<lambda>a b. cmp a b \<le> 0) ys"
  shows "sorted_wrt (\<lambda>a b. cmp a b \<le> 0) (insert_by cmp x ys)"
  using assms(2)
proof (induction ys)
  case Nil
  then show ?case by simp
next
  case (Cons y ys)
  show ?case
  proof (cases "cmp x y \<le> 0")
    case True
    have "\<forall>z \<in> set ys. cmp x z \<le> 0"
      using Cons.prems True consistent_trans [OF assms(1), of x y] by auto
    with True Cons.prems show ?thesis by simp
  next
    case False
    then have "cmp y x \<le> 0"
      using consistent_total [OF assms(1), of x y] by simp
    with False Cons show ?thesis by (simp add: set_insert_by)
  qed
qed

lemma sorted_js_sort:
  assumes "consistent_comparator cmp"
  shows "sorted_wrt (\<lambda>a b. cmp a b \<le> 0) (js_sort cmp xs)"
  unfolding js_sort_def
  by (induction xs) (simp_all add: sorted_insert_by [OF assms])

lemma consistent_compare:
  assumes "consistent_comparator lc"
  shows "consistent_comparator (compare lc)"
  unfolding consistent_comparator_def
proof (intro conjI allI impI)
  fix a b :: "goal \<times> availability"
  show "(compare lc a b < 0) = (0 < compare lc b a)"
    using assms by (auto simp: compare_def consistent_comparator_def)
next
  fix a b c :: "goal \<times> availability"
  assume h: "compare lc a b \<le> 0 \<and> compare lc b c \<le> 0"
  have tr: "lc x y \<le> 0 \<Longrightarrow> lc y z \<le> 0 \<Longrightarrow> lc x z \<le> 0" for x y z
    using assms unfolding consistent_comparator_def by blast
  show "compare lc a c \<le> 0"
    using h tr [of "name (fst a)" "name (fst b)" "name (fst c)"]
    by (auto simp: compare_def split: if_splits)
qed


lemma processAmbitions_sorted:
  assumes "consistent_comparator lc" and "processAmbitions lc ctx ambitions = Inr result"
  shows "sorted_wrt (\<lambda>a b. compare lc a b \<le> 0) result"
proof (cases "withAvailability ctx ambitions")
  case (Inl err)
  with assms(2) show ?thesis by (simp add: processAmbitions_def)
next
  case (Inr wa)
  have sorted: "sorted_wrt (\<lambda>a b. compare lc a b \<le> 0) (js_sort (compare lc) wa)"
    using consistent_compare [OF assms(1)] by (rule sorted_js_sort)
  show ?thesis
  proof (cases "showUnavailable ctx")
    case True
    with Inr assms(2) sorted show ?thesis by (auto simp: processAmbitions_def)
  next
    case False
    with Inr assms(2) have "result = filter (\<lambda>a. available (snd a)) (js_sort (compare lc) wa)"
      by (auto simp: processAmbitions_def)
    with sorted show ?thesis by (simp add: sorted_wrt_filter)
  qed
qed

lemma filterAndRender_lists:
  assumes "filterAndRender lc ctx ambitions = Inr (finalRegular, finalNational)"
    and "result = finalRegular \<or> result = finalNational"
  shows "\<exists>part. processAmbitions lc ctx part = Inr result"
  using assms by (auto simp: filterAndRender_def split: sum.splits)

text \<open>
  The lists are produced, not an error, when every ambition that has family classes has
  their names, as every published ambition does.
\<close>

lemma withAvailability_returns:
  assumes "\<forall>a \<in> set ambitions. familyClasses (filters a) \<noteq> None \<longrightarrow> familyClassNames (filters a) \<noteq> None"
  shows "\<exists>wa. withAvailability ctx ambitions = Inr wa"
  using assms
proof (induction ambitions)
  case Nil
  then show ?case by simp
next
  case (Cons a ambitions)
  then obtain wa where wa: "withAvailability ctx ambitions = Inr wa" by auto
  from Cons.prems have "\<exists>r. checkAvailability ctx a = Inr r"
    by (auto simp: checkAvailability_def Let_def split: option.splits)
  with wa show ?case by auto
qed

lemma filterAndRender_returns:
  assumes "\<forall>a \<in> set ambitions. familyClasses (filters a) \<noteq> None \<longrightarrow> familyClassNames (filters a) \<noteq> None"
  shows "\<exists>finalRegular finalNational.
           filterAndRender lc ctx ambitions = Inr (finalRegular, finalNational)"
proof -
  have sub: "\<exists>r. processAmbitions lc ctx (filterAmbitions ctx (filter P ambitions)) = Inr r" for P
  proof -
    have "\<forall>a \<in> set (filterAmbitions ctx (filter P ambitions)).
            familyClasses (filters a) \<noteq> None \<longrightarrow> familyClassNames (filters a) \<noteq> None"
      using assms by (simp add: filterAmbitions_def)
    from withAvailability_returns [OF this, of ctx] show ?thesis
      by (auto simp: processAmbitions_def)
  qed
  from sub [of "\<lambda>a. \<not> is_national a"] sub [of is_national] show ?thesis
    by (auto simp: filterAndRender_def)
qed

lemma published_family_names:
  assumes "parse_goals dir = Inr goals" and "a \<in> set goals"
  shows "familyClasses (filters a) \<noteq> None \<longrightarrow> familyClassNames (filters a) \<noteq> None"
proof -
  from parse_goals_mem [OF assms] obtain entry where
    "parse_goal (build_text_lookup (text_files dir)) (build_type_lookups (files dir)) entry
       = Inr (Some a)"
    by blast
  then have "filters a = parse_filters entry"
    by (auto simp: parse_goal_def split: option.splits if_splits sum.splits)
  then show ?thesis by (simp add: parse_filters_def Let_def)
qed

lemma code_compare_sign: "(code_compare a b < 0) = (0 < code_compare b a)"
  by (induction a b rule: code_compare.induct) auto

lemma code_compare_trans:
  "code_compare a b \<le> 0 \<Longrightarrow> code_compare b c \<le> 0 \<Longrightarrow> code_compare a c \<le> 0"
proof (induction a arbitrary: b c)
  case Nil
  then show ?case by (cases c) auto
next
  case (Cons x xs)
  show ?case
  proof (cases b)
    case Nil
    with Cons.prems show ?thesis by simp
  next
    case b: (Cons y ys)
    show ?thesis
    proof (cases c)
      case Nil
      with b Cons.prems show ?thesis by simp
    next
      case c: (Cons z zs)
      show ?thesis
      proof (cases "(of_char x :: nat) = of_char y \<and> (of_char y :: nat) = of_char z")
        case True
        with Cons.prems b c have "code_compare xs ys \<le> 0" "code_compare ys zs \<le> 0"
          by auto
        then have "code_compare xs zs \<le> 0" by (rule Cons.IH)
        with True c show ?thesis by simp
      next
        case False
        with Cons.prems b c show ?thesis by (auto split: if_splits)
      qed
    qed
  qed
qed

lemma code_compare_consistent: "consistent_comparator code_compare"
  unfolding consistent_comparator_def
  using code_compare_sign code_compare_trans by blast

subsection \<open>Link fallback: title case, letter by letter\<close>















subsection \<open>The sort: a stable permutation\<close>

lemma mset_insert_by: "mset (insert_by cmp x ys) = add_mset x (mset ys)"
  by (induction ys) auto

lemma mset_js_sort: "mset (js_sort cmp xs) = mset xs"
  unfolding js_sort_def by (induction xs) (simp_all add: mset_insert_by)

lemma consistent_zero:
  assumes "consistent_comparator cmp" and "cmp a b = 0"
  shows "cmp b a = 0"
proof -
  from assms have "\<not> cmp b a < 0" "\<not> 0 < cmp b a"
    unfolding consistent_comparator_def by (metis less_irrefl)+
  then show ?thesis by simp
qed

lemma stable_insert_by:
  assumes "consistent_comparator cmp"
  shows "filter (\<lambda>y. cmp k y = 0) (insert_by cmp x ys)
         = (if cmp k x = 0 then x # filter (\<lambda>y. cmp k y = 0) ys
            else filter (\<lambda>y. cmp k y = 0) ys)"
proof (induction ys)
  case Nil
  show ?case by simp
next
  case (Cons y ys)
  show ?case
  proof (cases "cmp x y \<le> 0")
    case True
    then show ?thesis by simp
  next
    case False
    have "\<not> (cmp k x = 0 \<and> cmp k y = 0)"
    proof
      assume both: "cmp k x = 0 \<and> cmp k y = 0"
      then have "cmp x k = 0" using consistent_zero [OF assms] by blast
      with both have "cmp x y \<le> 0"
        using consistent_trans [OF assms, of x k y] by simp
      with False show False by simp
    qed
    with False Cons.IH show ?thesis by auto
  qed
qed

lemma stable_js_sort:
  assumes "consistent_comparator cmp"
  shows "filter (\<lambda>y. cmp k y = 0) (js_sort cmp xs) = filter (\<lambda>y. cmp k y = 0) xs"
proof (induction xs)
  case Nil
  show ?case by (simp add: js_sort_def)
next
  case (Cons x xs)
  have "js_sort cmp (x # xs) = insert_by cmp x (js_sort cmp xs)"
    by (simp add: js_sort_def)
  with Cons.IH show ?case
    by (simp add: stable_insert_by [OF assms])
qed

lemma withAvailability_items:
  "withAvailability ctx ambitions = Inr items
   \<Longrightarrow> map fst items = ambitions
       \<and> (\<forall>item \<in> set items. checkAvailability ctx (fst item) = Inr (snd item))"
proof (induction ambitions arbitrary: items)
  case Nil
  then show ?case by simp
next
  case (Cons a ambitions)
  from Cons.prems obtain av others where
    av: "checkAvailability ctx a = Inr av"
    and others: "withAvailability ctx ambitions = Inr others"
    and items: "items = (a, av) # others"
    by (auto split: sum.splits)
  from Cons.IH [OF others] av items show ?case by simp
qed

lemma processAmbitions_result:
  assumes "processAmbitions lc ctx ambitions = Inr result"
  shows "\<exists>items. withAvailability ctx ambitions = Inr items
      \<and> result = (if showUnavailable ctx then js_sort (compare lc) items
                  else filter (\<lambda>a. available (snd a)) (js_sort (compare lc) items))"
  using assms by (auto simp: processAmbitions_def split: sum.splits)

lemma filterAndRender_parts:
  assumes "filterAndRender lc ctx ambitions = Inr (finalRegular, finalNational)"
    and "(result, part) = (finalRegular, filter (\<lambda>a. \<not> is_national a) ambitions)
         \<or> (result, part) = (finalNational, filter is_national ambitions)"
  shows "processAmbitions lc ctx (filterAmbitions ctx part) = Inr result"
  using assms by (auto simp: filterAndRender_def split: sum.splits)

lemma caseless_compare_consistent: "consistent_comparator caseless_compare"
  unfolding consistent_comparator_def caseless_compare_def
  using code_compare_sign code_compare_trans by blast


subsection \<open>The order of the ranked lists, by the host's collation\<close>

text \<open>
  C6, as the claim states it, fails on the order of names. The names are compared by
  \<open>localeCompare\<close>, the collation of the host, which is not the lexicographic order of
  the character codes: with a collation that ignores case, the name "Banana", which is
  lexicographically smaller than "apple", stands behind it.
\<close>

theorem ranking_name_order_counterexample:
  "consistent_comparator caseless_compare
   \<and> code_compare ''Banana'' ''apple'' < 0
   \<and> map_sum id (map (name \<circ> fst) \<circ> fst)
       (filterAndRender caseless_compare no_selection
          [ambition_of ''Banana'' 1 10 None None, ambition_of ''apple'' 1 10 None None])
     = Inr [''apple'', ''Banana'']"
proof -
  have "code_compare ''Banana'' ''apple'' < 0"
    by code_simp
  moreover have "map_sum id (map (name \<circ> fst) \<circ> fst)
       (filterAndRender caseless_compare no_selection
          [ambition_of ''Banana'' 1 10 None None, ambition_of ''apple'' 1 10 None None])
     = Inr [''apple'', ''Banana'']"
    by code_simp
  ultimately show ?thesis
    using caseless_compare_consistent by (intro conjI)
qed

text \<open>
  C6, amended. The collation \<open>localeCompare\<close> is the host's; the language requires it to
  be a consistent comparator, and that is all that is assumed of it. Each of the two lists
  \<open>filterAndRender\<close> produces is a rearrangement of the filtered ambitions of its
  partition, each with the availability \<open>checkAvailability\<close> gives it (of the available
  ones only when "show unavailable" is off), and the rearrangement is stable: items that
  compare equal keep the order of the input. In it, an item that stands before another is
  available if the other is; with equal availability its minTier is not greater; with
  equal availability and equal minTier its name is not greater in the collation. And of
  two items with equal availability and equal minTier, the one whose name the collation
  ranks smaller stands first.
\<close>

theorem ranking_order:
  assumes "consistent_comparator localeCompare"
    and "filterAndRender localeCompare ctx ambitions = Inr (finalRegular, finalNational)"
    and "(result, part) = (finalRegular, filter (\<lambda>a. \<not> is_national a) ambitions)
         \<or> (result, part) = (finalNational, filter is_national ambitions)"
  shows "(\<exists>items.
            withAvailability ctx (filterAmbitions ctx part) = Inr items
          \<and> map fst items = filterAmbitions ctx part
          \<and> (\<forall>item \<in> set items. checkAvailability ctx (fst item) = Inr (snd item))
          \<and> mset result
              = mset (if showUnavailable ctx then items
                      else filter (\<lambda>a. available (snd a)) items)
          \<and> (\<forall>x. filter (\<lambda>y. compare localeCompare x y = 0) result
                  = filter (\<lambda>y. compare localeCompare x y = 0)
                      (if showUnavailable ctx then items
                       else filter (\<lambda>a. available (snd a)) items)))
      \<and> (\<forall>i j. i < j \<and> j < length result \<longrightarrow>
            (available (snd (result ! j)) \<longrightarrow> available (snd (result ! i)))
          \<and> (available (snd (result ! i)) = available (snd (result ! j))
               \<longrightarrow> minTier (fst (result ! i)) \<le> minTier (fst (result ! j)))
          \<and> (available (snd (result ! i)) = available (snd (result ! j))
               \<and> minTier (fst (result ! i)) = minTier (fst (result ! j))
               \<longrightarrow> localeCompare (name (fst (result ! i))) (name (fst (result ! j))) \<le> 0))
      \<and> (\<forall>p q. p < length result \<and> q < length result
            \<and> available (snd (result ! p)) = available (snd (result ! q))
            \<and> minTier (fst (result ! p)) = minTier (fst (result ! q))
            \<and> localeCompare (name (fst (result ! p))) (name (fst (result ! q))) < 0
            \<longrightarrow> p < q)"
proof (intro conjI)
  note run = filterAndRender_parts [OF assms(2,3)]
  note cmp = consistent_compare [OF assms(1)]
  from processAmbitions_result [OF run] obtain items where
    items: "withAvailability ctx (filterAmbitions ctx part) = Inr items"
    and result: "result = (if showUnavailable ctx then js_sort (compare localeCompare) items
                  else filter (\<lambda>a. available (snd a)) (js_sort (compare localeCompare) items))"
    by blast
  note from_input = withAvailability_items [OF items]
  have perm: "mset result
      = mset (if showUnavailable ctx then items else filter (\<lambda>a. available (snd a)) items)"
    unfolding result by (simp add: mset_js_sort)
  have stable: "filter (\<lambda>y. compare localeCompare x y = 0) result
      = filter (\<lambda>y. compare localeCompare x y = 0)
          (if showUnavailable ctx then items else filter (\<lambda>a. available (snd a)) items)" for x
  proof (cases "showUnavailable ctx")
    case True
    with result show ?thesis by (simp add: stable_js_sort [OF cmp])
  next
    case False
    have "filter (\<lambda>y. compare localeCompare x y = 0)
            (filter (\<lambda>a. available (snd a)) (js_sort (compare localeCompare) items))
          = filter (\<lambda>a. available (snd a))
              (filter (\<lambda>y. compare localeCompare x y = 0) (js_sort (compare localeCompare) items))"
      by (simp add: conj_commute)
    also have "\<dots> = filter (\<lambda>a. available (snd a))
              (filter (\<lambda>y. compare localeCompare x y = 0) items)"
      by (simp only: stable_js_sort [OF cmp])
    also have "\<dots> = filter (\<lambda>y. compare localeCompare x y = 0)
              (filter (\<lambda>a. available (snd a)) items)"
      by (simp add: conj_commute)
    finally show ?thesis using False result by simp
  qed
  from items from_input perm stable
  show "\<exists>items.
            withAvailability ctx (filterAmbitions ctx part) = Inr items
          \<and> map fst items = filterAmbitions ctx part
          \<and> (\<forall>item \<in> set items. checkAvailability ctx (fst item) = Inr (snd item))
          \<and> mset result
              = mset (if showUnavailable ctx then items
                      else filter (\<lambda>a. available (snd a)) items)
          \<and> (\<forall>x. filter (\<lambda>y. compare localeCompare x y = 0) result
                  = filter (\<lambda>y. compare localeCompare x y = 0)
                      (if showUnavailable ctx then items
                       else filter (\<lambda>a. available (snd a)) items))"
    by blast
  have "sorted_wrt (\<lambda>a b. compare localeCompare a b \<le> 0) result"
    using assms(1) run by (rule processAmbitions_sorted)
  then have ordered: "compare localeCompare (result ! i) (result ! j) \<le> 0"
    if "i < j" "j < length result" for i j
    using that by (simp add: sorted_wrt_iff_nth_less)
  have first: "(available (snd (result ! j)) \<longrightarrow> available (snd (result ! i)))
          \<and> (available (snd (result ! i)) = available (snd (result ! j))
               \<longrightarrow> minTier (fst (result ! i)) \<le> minTier (fst (result ! j)))
          \<and> (available (snd (result ! i)) = available (snd (result ! j))
               \<and> minTier (fst (result ! i)) = minTier (fst (result ! j))
               \<longrightarrow> localeCompare (name (fst (result ! i))) (name (fst (result ! j))) \<le> 0)"
    if "i < j" "j < length result" for i j
    using ordered [OF that] by (auto simp: compare_def split: if_splits)
  then show "\<forall>i j. i < j \<and> j < length result \<longrightarrow>
            (available (snd (result ! j)) \<longrightarrow> available (snd (result ! i)))
          \<and> (available (snd (result ! i)) = available (snd (result ! j))
               \<longrightarrow> minTier (fst (result ! i)) \<le> minTier (fst (result ! j)))
          \<and> (available (snd (result ! i)) = available (snd (result ! j))
               \<and> minTier (fst (result ! i)) = minTier (fst (result ! j))
               \<longrightarrow> localeCompare (name (fst (result ! i))) (name (fst (result ! j))) \<le> 0)"
    by blast
  have second: "p < q"
    if "p < length result" "q < length result"
      and eq: "available (snd (result ! p)) = available (snd (result ! q))"
        "minTier (fst (result ! p)) = minTier (fst (result ! q))"
      and less: "localeCompare (name (fst (result ! p))) (name (fst (result ! q))) < 0"
    for p q
  proof (rule ccontr)
    assume "\<not> p < q"
    then consider "p = q" | "q < p" by linarith
    then show False
    proof cases
      case 1
      with less have "localeCompare (name (fst (result ! p))) (name (fst (result ! p))) < 0"
        by simp
      moreover from this assms(1)
      have "0 < localeCompare (name (fst (result ! p))) (name (fst (result ! p)))"
        unfolding consistent_comparator_def by blast
      ultimately show False by simp
    next
      case 2
      from first [OF 2 that(1)] eq
      have "localeCompare (name (fst (result ! q))) (name (fst (result ! p))) \<le> 0"
        by simp
      moreover from less assms(1)
      have "0 < localeCompare (name (fst (result ! q))) (name (fst (result ! p)))"
        unfolding consistent_comparator_def by blast
      ultimately show False by simp
    qed
  qed
  then show "\<forall>p q. p < length result \<and> q < length result
            \<and> available (snd (result ! p)) = available (snd (result ! q))
            \<and> minTier (fst (result ! p)) = minTier (fst (result ! q))
            \<and> localeCompare (name (fst (result ! p))) (name (fst (result ! q))) < 0
            \<longrightarrow> p < q"
    by blast
qed


text \<open>
  Greece is selected and the collation is the comparison by character codes. Of five
  regular ambitions the one for Rome only is unavailable and comes last; the available
  ones come by minTier; at minTier 2 the two ambitions named A come before B, and they
  keep the order they had in the input.
\<close>

theorem ranking_order_witness:
  "\<exists>regular national.
      filterAndRender code_compare (no_selection\<lparr>selectedNation := ''NATION_GREECE''\<rparr>)
        [ambition_of ''Z'' 1 10 (Some ''NATION_ROME'') None, ambition_of ''B'' 2 10 None None,
         (ambition_of ''A'' 2 10 None None)\<lparr>goal_id := ''A2''\<rparr>,
         ambition_of ''A'' 2 10 None None, ambition_of ''C'' 1 10 None None]
      = Inr (regular, national)
      \<and> map (goal_id \<circ> fst) regular = [''C'', ''A2'', ''A'', ''B'', ''Z'']
      \<and> minTier (fst (regular ! 0)) \<le> minTier (fst (regular ! 1))
      \<and> code_compare (name (fst (regular ! 2))) (name (fst (regular ! 3))) \<le> 0
      \<and> available (snd (regular ! 3)) \<and> \<not> available (snd (regular ! 4))"
proof -
  let ?ctx = "no_selection\<lparr>selectedNation := ''NATION_GREECE''\<rparr>"
  let ?l = "[ambition_of ''Z'' 1 10 (Some ''NATION_ROME'') None, ambition_of ''B'' 2 10 None None,
         (ambition_of ''A'' 2 10 None None)\<lparr>goal_id := ''A2''\<rparr>,
         ambition_of ''A'' 2 10 None None, ambition_of ''C'' 1 10 None None]"
  let ?f = "\<lambda>a :: goal \<times> availability. (goal_id (fst a), available (snd a), minTier (fst a))"
  have "map_sum id (map ?f \<circ> fst) (filterAndRender code_compare ?ctx ?l)
        = Inr [(''C'', True, 1), (''A2'', True, 2), (''A'', True, 2), (''B'', True, 2),
               (''Z'', False, 1)]"
    by code_simp
  then obtain regular national where
    run: "filterAndRender code_compare ?ctx ?l = Inr (regular, national)"
    and proj: "map ?f regular = [(''C'', True, 1), (''A2'', True, 2), (''A'', True, 2),
                 (''B'', True, 2), (''Z'', False, 1)]"
    by (cases "filterAndRender code_compare ?ctx ?l") auto
  have "length (map ?f regular) = 5"
    unfolding proj by simp
  then have len: "length regular = 5"
    by simp
  have at: "?f (regular ! k) = map ?f regular ! k" if "k < 5" for k
    using that len by simp
  have p0: "?f (regular ! 0) = (''C'', True, 1)" using at [of 0] proj by simp
  have p1: "?f (regular ! 1) = (''A2'', True, 2)" using at [of 1] proj by simp
  have p2: "?f (regular ! 2) = (''A'', True, 2)" using at [of 2] proj by simp
  have p3: "?f (regular ! 3) = (''B'', True, 2)" using at [of 3] proj by simp
  have p4: "?f (regular ! 4) = (''Z'', False, 1)" using at [of 4] proj by simp
  have part: "(regular, filter (\<lambda>a. \<not> is_national a) ?l)
                = (regular, filter (\<lambda>a. \<not> is_national a) ?l)
              \<or> (regular, filter (\<lambda>a. \<not> is_national a) ?l)
                = (national, filter is_national ?l)"
    by simp
  note order = conjunct1 [OF conjunct2 [OF ranking_order [OF code_compare_consistent run part]]]
  have o01: "minTier (fst (regular ! 0)) \<le> minTier (fst (regular ! 1))"
    using order [rule_format, of 0 1] len p0 p1 by simp
  have o23: "code_compare (name (fst (regular ! 2))) (name (fst (regular ! 3))) \<le> 0"
    using order [rule_format, of 2 3] len p2 p3 by simp
  have ids: "map (goal_id \<circ> fst) regular = [''C'', ''A2'', ''A'', ''B'', ''Z'']"
  proof -
    have "map (goal_id \<circ> fst) regular = map fst (map ?f regular)" by simp
    with proj show ?thesis by simp
  qed
  from run ids o01 o23 p3 p4 show ?thesis by auto
qed

end
